theory Spec2Isabelle
  imports Complex_Main "HOL-Library.Multiset"
begin

section \<open>Data model\<close>

text \<open>
  The inventory application keeps one \<open>InventoryRecord\<close> per product and day
  (\<open>types/inventory\<close>). Quantities are JavaScript numbers; the data model of the
  application takes them to be whole quantities, on which the arithmetic of the source
  (sums, differences, comparisons) is exact, so they are integers here, of either sign
  (the type does not exclude a negative number). Quotients are taken in the reals; the
  rounding of floating-point division and fractional quantities, which the number
  inputs of the form would accept, are outside the model. The optional database \<open>id\<close>
  plays no part in the reports.
\<close>

record InventoryRecord =
  item_name :: string
  date :: string
  opening_stock :: int
  new_stock :: int
  new_balance :: int
  issued_production :: int
  returns :: int
  rebagging :: int
  damaged :: int
  closing_stock :: int
  timestamp :: string

text \<open>
  Reading \<open>xs[0]\<close> or \<open>xs[xs.length - 1]\<close> of an empty array gives \<open>undefined\<close>,
  and the property access that follows throws a \<open>TypeError\<close>.
\<close>

datatype error = TypeError

section \<open>The array and map operations the reports use\<close>

text \<open>
  \<open>Array.prototype.sort\<close> with a comparator is a stable sort: \<open>x\<close> is placed before
  the first element \<open>y\<close> of the sorted rest with \<open>c x y \<le> 0\<close>. Every comparator
  of the reports is the difference of a numeric key of its two arguments, so it is
  consistent and the result of a stable sort is determined. An array sorted in place is
  the sorted list from then on.
\<close>

fun insort_cmp :: "('a \<Rightarrow> 'a \<Rightarrow> 'b::{linorder,zero}) \<Rightarrow> 'a \<Rightarrow> 'a list \<Rightarrow> 'a list" where
  "insort_cmp c x [] = [x]"
| "insort_cmp c x (y # ys) = (if c x y \<le> 0 then x # y # ys else y # insort_cmp c x ys)"

definition js_sort :: "('a \<Rightarrow> 'a \<Rightarrow> 'b::{linorder,zero}) \<Rightarrow> 'a list \<Rightarrow> 'a list" where
  "js_sort c xs = foldr (insort_cmp c) xs []"

text \<open>
  The grouping loop \<open>forEach(record => { if (!m.has(k)) m.set(k, []); m.get(k).push(record) })\<close>
  over a \<open>Map\<close>, which iterates in the order in which the keys were first set.
\<close>

fun push_group :: "'k \<Rightarrow> 'a \<Rightarrow> ('k \<times> 'a list) list \<Rightarrow> ('k \<times> 'a list) list" where
  "push_group k r [] = [(k, [r])]"
| "push_group k r ((k', rs) # m) =
     (if k' = k then (k', rs @ [r]) # m else (k', rs) # push_group k r m)"

definition groupBy :: "('a \<Rightarrow> 'k) \<Rightarrow> 'a list \<Rightarrow> ('k \<times> 'a list) list" where
  "groupBy key xs = foldl (\<lambda>m r. push_group (key r) r m) [] xs"

text \<open>
  The accumulating loop \<open>m.set(k, (m.get(k) || 0) + v)\<close> over a \<open>Map\<close> of numbers.
\<close>

fun add_to :: "'k \<Rightarrow> int \<Rightarrow> ('k \<times> int) list \<Rightarrow> ('k \<times> int) list" where
  "add_to k v [] = [(k, 0 + v)]"
| "add_to k v ((k', n) # m) =
     (if k' = k then (k', n + v) # m else (k', n) # add_to k v m)"

text \<open>\<open>records.reduce((sum, r) => sum + f(r), 0)\<close>.\<close>

definition reduce_sum :: "('a \<Rightarrow> int) \<Rightarrow> 'a list \<Rightarrow> int" where
  "reduce_sum f rs = foldl (\<lambda>sum r. sum + f r) 0 rs"

text \<open>\<open>.map(f)\<close> with a callback that may throw: the first exception ends the loop.\<close>

fun mapE :: "('a \<Rightarrow> error + 'b) \<Rightarrow> 'a list \<Rightarrow> error + 'b list" where
  "mapE f [] = Inr []"
| "mapE f (x # xs) =
     (case f x of Inl e \<Rightarrow> Inl e
      | Inr y \<Rightarrow> (case mapE f xs of Inl e \<Rightarrow> Inl e | Inr ys \<Rightarrow> Inr (y # ys)))"

text \<open>\<open>new Set(xs).size\<close>.\<close>

definition set_size :: "'a list \<Rightarrow> nat" where
  "set_size xs = length (remdups xs)"

section \<open>Dates\<close>

text \<open>
  Record dates are strings. The reports compare them through
  \<open>new Date(s).getTime()\<close>, the milliseconds since the epoch; that function of the
  runtime is the parameter \<open>tm\<close> of every report, and the clock reading of
  \<open>new Date()\<close> is the parameter \<open>now\<close>. A string that is no date gives \<open>NaN\<close>
  there; such records are outside the model, in which \<open>tm\<close> is an integer for every
  string. \<open>isoTime\<close> is the runtime's value on the calendar dates \<open>YYYY-MM-DD\<close> that
  the date inputs of the application produce (UTC midnight of that day); it instantiates
  \<open>tm\<close> on concrete inputs.
\<close>

definition digits :: "string \<Rightarrow> int" where
  "digits s = foldl (\<lambda>n c. 10 * n + (int (of_char c) - 48)) 0 s"

definition days_from_civil :: "int \<Rightarrow> int \<Rightarrow> int \<Rightarrow> int" where
  "days_from_civil y m d =
     (let y' = (if m \<le> 2 then y - 1 else y);
          era = y' div 400;
          yoe = y' - era * 400;
          doy = (153 * ((m + 9) mod 12) + 2) div 5 + d - 1;
          doe = yoe * 365 + yoe div 4 - yoe div 100 + doy
      in era * 146097 + doe - 719468)"

definition isoTime :: "string \<Rightarrow> int" where
  "isoTime s =
     days_from_civil (digits (take 4 s)) (digits (take 2 (drop 5 s))) (digits (take 2 (drop 8 s)))
       * 86400000"

text \<open>
  \<open>toLocaleDateString('en-US', {weekday: 'short'})\<close> is the parameter \<open>dayName\<close> of the
  weekly report; \<open>isoWeekday\<close> is its value on calendar dates in a runtime whose time
  zone is UTC (1970-01-01 was a Thursday).
\<close>

definition isoWeekday :: "string \<Rightarrow> string" where
  "isoWeekday s =
     [''Sun'', ''Mon'', ''Tue'', ''Wed'', ''Thu'', ''Fri'', ''Sat'']
       ! nat ((isoTime s div 86400000 + 4) mod 7)"

record DateRange =
  startDate :: string
  endDate :: string

text \<open>The date filter of \<open>generateReports\<close>: both ends inclusive.\<close>

definition filterRecords :: "(string \<Rightarrow> int) \<Rightarrow> DateRange \<Rightarrow> InventoryRecord list \<Rightarrow> InventoryRecord list" where
  "filterRecords tm dateRange records =
     filter (\<lambda>record. tm (date record) \<ge> tm (startDate dateRange)
                     \<and> tm (date record) \<le> tm (endDate dateRange)) records"

section \<open>The report views\<close>

subsection \<open>Out of stock\<close>

record OutOfStockItem =
  oos_item_name :: string
  last_stock :: int
  last_date :: string
  days_since_stock :: int

definition outOfStockRow :: "(string \<Rightarrow> int) \<Rightarrow> int \<Rightarrow> string \<times> InventoryRecord list \<Rightarrow> error + OutOfStockItem" where
  "outOfStockRow tm now g =
     (case g of (itemName, records) \<Rightarrow>
        (case js_sort (\<lambda>a b. tm (date b) - tm (date a)) records of
           [] \<Rightarrow> Inl TypeError
         | latestRecord # _ \<Rightarrow>
             Inr \<lparr> oos_item_name = itemName,
                   last_stock = closing_stock latestRecord,
                   last_date = date latestRecord,
                   days_since_stock =
                     \<lfloor>real_of_int (now - tm (date latestRecord)) / real_of_int (1000 * 60 * 60 * 24)\<rfloor> \<rparr>))"

definition generateOutOfStockReport :: "(string \<Rightarrow> int) \<Rightarrow> int \<Rightarrow> InventoryRecord list \<Rightarrow> error + OutOfStockItem list" where
  "generateOutOfStockReport tm now filteredRecords =
     map_sum id
       (\<lambda>rows. js_sort (\<lambda>a b. days_since_stock b - days_since_stock a)
                 (filter (\<lambda>item. last_stock item = 0) rows))
       (mapE (outOfStockRow tm now) (groupBy item_name filteredRecords))"

subsection \<open>Stock movements by date\<close>

record DailyActivity =
  da_item_name :: string
  da_new_stock :: int
  da_issued_production :: int
  da_returns :: int
  da_rebagging :: int
  da_damaged :: int
  da_opening_stock :: int
  da_closing_stock :: int
  da_net_change :: int

record StockMovement =
  sm_date :: string
  total_in :: int
  total_out :: int
  sm_net_change :: int
  product_count :: nat
  daily_activities :: "DailyActivity list"

definition dailyActivity :: "InventoryRecord \<Rightarrow> DailyActivity" where
  "dailyActivity record =
     (let stockIn = new_stock record + returns record + rebagging record;
          stockOut = issued_production record + damaged record;
          recordNetChange = stockIn - stockOut
      in \<lparr> da_item_name = item_name record,
            da_new_stock = new_stock record,
            da_issued_production = issued_production record,
            da_returns = returns record,
            da_rebagging = rebagging record,
            da_damaged = damaged record,
            da_opening_stock = opening_stock record,
            da_closing_stock = closing_stock record,
            da_net_change = recordNetChange \<rparr>)"

definition stockMovementRow :: "string \<times> InventoryRecord list \<Rightarrow> StockMovement" where
  "stockMovementRow g =
     (case g of (d, records) \<Rightarrow>
        (let totalIn = foldl (\<lambda>sum r. sum + new_stock r + returns r + rebagging r) 0 records;
             totalOut = foldl (\<lambda>sum r. sum + issued_production r + damaged r) 0 records;
             netChange = totalIn - totalOut
         in \<lparr> sm_date = d,
               total_in = totalIn,
               total_out = totalOut,
               sm_net_change = netChange,
               product_count = length records,
               daily_activities = map dailyActivity records \<rparr>))"

definition generateStockMovementReport :: "(string \<Rightarrow> int) \<Rightarrow> InventoryRecord list \<Rightarrow> StockMovement list" where
  "generateStockMovementReport tm filteredRecords =
     js_sort (\<lambda>a b. tm (sm_date a) - tm (sm_date b))
       (map stockMovementRow (groupBy date filteredRecords))"

subsection \<open>Stock balances\<close>

text \<open>
  The rows of the views are records whose field names are global in a theory, so a field
  that several views share (\<open>item_name\<close>, \<open>net_change\<close>, ...) carries a prefix naming
  its view.
\<close>

record StockBalance =
  sb_item_name :: string
  sb_opening_stock :: int
  sb_closing_stock :: int
  sb_net_change :: int
  movement_type :: string

definition stockBalanceRow :: "(string \<Rightarrow> int) \<Rightarrow> string \<times> InventoryRecord list \<Rightarrow> error + StockBalance" where
  "stockBalanceRow tm g =
     (case g of (itemName, records) \<Rightarrow>
        (case js_sort (\<lambda>a b. tm (date a) - tm (date b)) records of
           [] \<Rightarrow> Inl TypeError
         | firstRecord # rest \<Rightarrow>
             (let lastRecord = last (firstRecord # rest);
                  netChange = closing_stock lastRecord - opening_stock firstRecord;
                  movementType = (if netChange > 0 then ''increasing''
                                  else if netChange < 0 then ''decreasing'' else ''stable'')
              in Inr \<lparr> sb_item_name = itemName,
                       sb_opening_stock = opening_stock firstRecord,
                       sb_closing_stock = closing_stock lastRecord,
                       sb_net_change = netChange,
                       movement_type = movementType \<rparr>)))"

definition generateStockBalanceReport :: "(string \<Rightarrow> int) \<Rightarrow> InventoryRecord list \<Rightarrow> error + StockBalance list" where
  "generateStockBalanceReport tm filteredRecords =
     map_sum id
       (js_sort (\<lambda>a b. \<bar>sb_net_change b\<bar> - \<bar>sb_net_change a\<bar>))
       (mapE (stockBalanceRow tm) (groupBy item_name filteredRecords))"

subsection \<open>Production usage\<close>

text \<open>
  \<open>totalIssued / records.length\<close> is a division with no guard: on a zero divisor
  JavaScript gives \<open>NaN\<close> or an infinity. \<open>js_div\<close> returns \<open>None\<close> for those
  non-finite results.
\<close>

definition js_div :: "real \<Rightarrow> real \<Rightarrow> real option" where
  "js_div a b = (if b = 0 then None else Some (a / b))"

record ProductionIssue =
  pi_item_name :: string
  total_issued :: int
  avg_daily_usage :: "real option"
  last_issued_date :: string
  stock_level :: int

definition productionRow :: "(string \<Rightarrow> int) \<Rightarrow> string \<times> InventoryRecord list \<Rightarrow> error + ProductionIssue" where
  "productionRow tm g =
     (case g of (itemName, records) \<Rightarrow>
        (let totalIssued = reduce_sum issued_production records;
             avgDailyUsage = js_div (real_of_int totalIssued) (real (length records))
         in case js_sort (\<lambda>a b. tm (date b) - tm (date a)) records of
              [] \<Rightarrow> Inl TypeError
            | lastRecord # _ \<Rightarrow>
                Inr \<lparr> pi_item_name = itemName,
                      total_issued = totalIssued,
                      avg_daily_usage = avgDailyUsage,
                      last_issued_date = date lastRecord,
                      stock_level = closing_stock lastRecord \<rparr>))"

definition generateProductionReport :: "(string \<Rightarrow> int) \<Rightarrow> InventoryRecord list \<Rightarrow> error + ProductionIssue list" where
  "generateProductionReport tm filteredRecords =
     map_sum id
       (\<lambda>rows. js_sort (\<lambda>a b. total_issued b - total_issued a)
                 (filter (\<lambda>item. total_issued item > 0) rows))
       (mapE (productionRow tm) (groupBy item_name filteredRecords))"

subsection \<open>Returns and rebagging\<close>

record ReturnsRebagging =
  rr_item_name :: string
  rr_total_returns :: int
  rr_total_rebagging :: int
  rr_return_rate :: real
  last_activity :: string

definition returnsRebaggingRow :: "(string \<Rightarrow> int) \<Rightarrow> string \<times> InventoryRecord list \<Rightarrow> error + ReturnsRebagging" where
  "returnsRebaggingRow tm g =
     (case g of (itemName, records) \<Rightarrow>
        (let totalReturns = reduce_sum returns records;
             totalRebagging = reduce_sum rebagging records;
             totalStockIn = reduce_sum new_stock records;
             returnRate = (if totalStockIn > 0
                           then (real_of_int totalReturns / real_of_int totalStockIn) * 100 else 0)
         in case js_sort (\<lambda>a b. tm (date b) - tm (date a)) records of
              [] \<Rightarrow> Inl TypeError
            | lastRecord # _ \<Rightarrow>
                Inr \<lparr> rr_item_name = itemName,
                      rr_total_returns = totalReturns,
                      rr_total_rebagging = totalRebagging,
                      rr_return_rate = returnRate,
                      last_activity = date lastRecord \<rparr>))"

definition generateReturnsRebaggingReport :: "(string \<Rightarrow> int) \<Rightarrow> InventoryRecord list \<Rightarrow> error + ReturnsRebagging list" where
  "generateReturnsRebaggingReport tm filteredRecords =
     map_sum id
       (\<lambda>rows. js_sort (\<lambda>a b. (rr_total_returns b + rr_total_rebagging b)
                               - (rr_total_returns a + rr_total_rebagging a))
                 (filter (\<lambda>item. rr_total_returns item > 0 \<or> rr_total_rebagging item > 0) rows))
       (mapE (returnsRebaggingRow tm) (groupBy item_name filteredRecords))"

subsection \<open>Damaged stock\<close>

record DamagedStock =
  ds_item_name :: string
  ds_total_damaged :: int
  damage_percentage :: real
  last_damage_date :: string
  ds_total_stock_in :: int

definition damagedStockRow :: "(string \<Rightarrow> int) \<Rightarrow> string \<times> InventoryRecord list \<Rightarrow> error + DamagedStock" where
  "damagedStockRow tm g =
     (case g of (itemName, records) \<Rightarrow>
        (let totalDamaged = reduce_sum damaged records;
             totalStockIn = reduce_sum new_stock records;
             damagePercentage = (if totalStockIn > 0
                                 then (real_of_int totalDamaged / real_of_int totalStockIn) * 100 else 0)
         in case js_sort (\<lambda>a b. tm (date b) - tm (date a)) records of
              [] \<Rightarrow> Inl TypeError
            | lastRecord # _ \<Rightarrow>
                Inr \<lparr> ds_item_name = itemName,
                      ds_total_damaged = totalDamaged,
                      damage_percentage = damagePercentage,
                      last_damage_date = date lastRecord,
                      ds_total_stock_in = totalStockIn \<rparr>))"

definition generateDamagedStockReport :: "(string \<Rightarrow> int) \<Rightarrow> InventoryRecord list \<Rightarrow> error + DamagedStock list" where
  "generateDamagedStockReport tm filteredRecords =
     map_sum id
       (\<lambda>rows. js_sort (\<lambda>a b. damage_percentage b - damage_percentage a)
                 (filter (\<lambda>item. ds_total_damaged item > 0) rows))
       (mapE (damagedStockRow tm) (groupBy item_name filteredRecords))"

subsection \<open>Stock history\<close>

record StockHistory =
  sh_item_name :: string
  total_records :: nat
  first_record :: string
  last_record :: string
  stock_trend :: string

definition stockHistoryRow :: "(string \<Rightarrow> int) \<Rightarrow> string \<times> InventoryRecord list \<Rightarrow> error + StockHistory" where
  "stockHistoryRow tm g =
     (case g of (itemName, records) \<Rightarrow>
        (case js_sort (\<lambda>a b. tm (date a) - tm (date b)) records of
           [] \<Rightarrow> Inl TypeError
         | firstRecord # rest \<Rightarrow>
             (let lastRecord = last (firstRecord # rest);
                  stockTrend = (if closing_stock lastRecord > opening_stock firstRecord then ''increasing''
                                else if closing_stock lastRecord < opening_stock firstRecord then ''decreasing''
                                else ''stable'')
              in Inr \<lparr> sh_item_name = itemName,
                       total_records = length (firstRecord # rest),
                       first_record = date firstRecord,
                       last_record = date lastRecord,
                       stock_trend = stockTrend \<rparr>)))"

definition generateStockHistoryReport :: "(string \<Rightarrow> int) \<Rightarrow> InventoryRecord list \<Rightarrow> error + StockHistory list" where
  "generateStockHistoryReport tm filteredRecords =
     map_sum id
       (js_sort (\<lambda>a b. int (total_records b) - int (total_records a)))
       (mapE (stockHistoryRow tm) (groupBy item_name filteredRecords))"

subsection \<open>Weekly report\<close>

record WeeklySummary =
  ws_total_stock_in :: int
  ws_total_stock_out :: int
  ws_total_returns :: int
  ws_total_rebagging :: int
  ws_total_damaged :: int
  ws_net_change :: int

datatype activity = high | medium | low

record ProductMovement =
  pm_item_name :: string
  pm_opening_stock :: int
  pm_closing_stock :: int
  pm_total_stock_in :: int
  pm_total_stock_out :: int
  pm_total_returns :: int
  pm_total_rebagging :: int
  pm_total_damaged :: int
  pm_net_change :: int
  movement_percentage :: real
  activity_level :: activity
  days_active :: nat

record DailySummary =
  dsum_date :: string
  day_name :: string
  total_transactions :: nat
  dsum_net_change :: int
  top_product :: string
  dsum_total_stock_in :: int
  dsum_total_stock_out :: int
  dsum_total_returns :: int
  dsum_total_rebagging :: int
  dsum_total_damaged :: int
  products_active :: nat
  most_active_product :: string
  most_active_product_movements :: int

record EfficiencyMetrics =
  return_rate :: real
  damage_rate :: real
  rebagging_rate :: real
  stock_turnover :: real

record WeeklyReport =
  week_start :: string
  week_end :: string
  total_products :: nat
  total_movements :: nat
  summary :: WeeklySummary
  product_movements :: "ProductMovement list"
  daily_summary :: "DailySummary list"
  efficiency_metrics :: EfficiencyMetrics

definition productMovementRow :: "(string \<Rightarrow> int) \<Rightarrow> string \<times> InventoryRecord list \<Rightarrow> error + ProductMovement" where
  "productMovementRow tm g =
     (case g of (itemName, records0) \<Rightarrow>
        (case js_sort (\<lambda>a b. tm (date a) - tm (date b)) records0 of
           [] \<Rightarrow> Inl TypeError
         | firstRecord # rest \<Rightarrow>
             (let records = firstRecord # rest;
                  openingStock = opening_stock firstRecord;
                  closingStock = closing_stock (last records);
                  stock_in = reduce_sum new_stock records;
                  stock_out = reduce_sum issued_production records;
                  total_returns = reduce_sum returns records;
                  total_rebagging = reduce_sum rebagging records;
                  total_damaged = reduce_sum damaged records;
                  netChange = stock_in - stock_out;
                  totalActivity = stock_in + stock_out + total_returns + total_rebagging + total_damaged;
                  movementPercentage = (if openingStock > 0
                                        then (real_of_int \<bar>netChange\<bar> / real_of_int openingStock) * 100 else 0);
                  activityLevel = (if totalActivity > 100 then high
                                   else if totalActivity > 50 then medium else low);
                  uniqueDays = set_size (map date records)
              in Inr \<lparr> pm_item_name = itemName,
                       pm_opening_stock = openingStock,
                       pm_closing_stock = closingStock,
                       pm_total_stock_in = stock_in,
                       pm_total_stock_out = stock_out,
                       pm_total_returns = total_returns,
                       pm_total_rebagging = total_rebagging,
                       pm_total_damaged = total_damaged,
                       pm_net_change = netChange,
                       movement_percentage = movementPercentage,
                       activity_level = activityLevel,
                       days_active = uniqueDays \<rparr>)))"

text \<open>
  The filter and the comparator of the product rows recompute the total activity from
  the fields of a row.
\<close>

definition pm_activity :: "ProductMovement \<Rightarrow> int" where
  "pm_activity p =
     pm_total_stock_in p + pm_total_stock_out p + pm_total_returns p
       + pm_total_rebagging p + pm_total_damaged p"

definition productMovements :: "(string \<Rightarrow> int) \<Rightarrow> InventoryRecord list \<Rightarrow> error + ProductMovement list" where
  "productMovements tm filteredRecords =
     map_sum id
       (\<lambda>rows. js_sort (\<lambda>a b. pm_activity b - pm_activity a)
                 (filter (\<lambda>product. pm_activity product > 0) rows))
       (mapE (productMovementRow tm) (groupBy item_name filteredRecords))"

definition dailySummaryRow :: "(string \<Rightarrow> string) \<Rightarrow> string \<times> InventoryRecord list \<Rightarrow> DailySummary" where
  "dailySummaryRow dayName g =
     (case g of (d, records) \<Rightarrow>
        (let stock_in = reduce_sum new_stock records;
             stock_out = reduce_sum issued_production records;
             total_returns = reduce_sum returns records;
             total_rebagging = reduce_sum rebagging records;
             total_damaged = reduce_sum damaged records;
             netChange = stock_in - stock_out;
             uniqueProducts = set_size (map item_name records);
             productActivity =
               foldl (\<lambda>m record.
                        add_to (item_name record)
                          (new_stock record + issued_production record + returns record
                             + rebagging record + damaged record) m) [] records;
             mostActiveProduct = js_sort (\<lambda>a b. snd b - snd a) productActivity;
             productChanges =
               foldl (\<lambda>m record.
                        add_to (item_name record) (new_stock record - issued_production record) m)
                 [] records;
             topProduct =
               (case js_sort (\<lambda>a b. \<bar>snd b\<bar> - \<bar>snd a\<bar>) productChanges of
                  [] \<Rightarrow> ''None''
                | e # _ \<Rightarrow> (if fst e = [] then ''None'' else fst e))
         in \<lparr> dsum_date = d,
               day_name = dayName d,
               total_transactions = length records,
               dsum_net_change = netChange,
               top_product = topProduct,
               dsum_total_stock_in = stock_in,
               dsum_total_stock_out = stock_out,
               dsum_total_returns = total_returns,
               dsum_total_rebagging = total_rebagging,
               dsum_total_damaged = total_damaged,
               products_active = uniqueProducts,
               most_active_product =
                 (case mostActiveProduct of [] \<Rightarrow> ''None''
                  | e # _ \<Rightarrow> (if fst e = [] then ''None'' else fst e)),
               most_active_product_movements =
                 (case mostActiveProduct of [] \<Rightarrow> 0
                  | e # _ \<Rightarrow> (if snd e = 0 then 0 else snd e)) \<rparr>))"

definition emptyWeeklyReport :: WeeklyReport where
  "emptyWeeklyReport =
     \<lparr> week_start = [],
       week_end = [],
       total_products = 0,
       total_movements = 0,
       summary = \<lparr> ws_total_stock_in = 0, ws_total_stock_out = 0, ws_total_returns = 0,
                   ws_total_rebagging = 0, ws_total_damaged = 0, ws_net_change = 0 \<rparr>,
       product_movements = [],
       daily_summary = [],
       efficiency_metrics = \<lparr> return_rate = 0, damage_rate = 0, rebagging_rate = 0,
                              stock_turnover = 0 \<rparr> \<rparr>"

text \<open>
  \<open>filteredRecords.sort(...)\<close> sorts the array in place, so every later use of
  \<open>filteredRecords\<close> in the weekly report sees the records in date order. The weekly
  report is the last view that \<open>generateReports\<close> computes; the other views have read
  the array before.
\<close>

definition generateWeeklyReport :: "(string \<Rightarrow> int) \<Rightarrow> (string \<Rightarrow> string) \<Rightarrow> InventoryRecord list \<Rightarrow> error + WeeklyReport" where
  "generateWeeklyReport tm dayName filteredRecords0 =
     (if length filteredRecords0 = 0 then Inr emptyWeeklyReport
      else
        (case js_sort (\<lambda>a b. tm (date a) - tm (date b)) filteredRecords0 of
           [] \<Rightarrow> Inl TypeError
         | firstRecord # rest \<Rightarrow>
             (let filteredRecords = firstRecord # rest;
                  weekStart = date firstRecord;
                  weekEnd = date (last filteredRecords);
                  summ = \<lparr> ws_total_stock_in = reduce_sum new_stock filteredRecords,
                           ws_total_stock_out = reduce_sum issued_production filteredRecords,
                           ws_total_returns = reduce_sum returns filteredRecords,
                           ws_total_rebagging = reduce_sum rebagging filteredRecords,
                           ws_total_damaged = reduce_sum damaged filteredRecords,
                           ws_net_change =
                             reduce_sum (\<lambda>r. new_stock r - issued_production r) filteredRecords \<rparr>
              in case productMovements tm filteredRecords of
                   Inl e \<Rightarrow> Inl e
                 | Inr pms \<Rightarrow>
                     (let dailySummary =
                            js_sort (\<lambda>a b. tm (dsum_date a) - tm (dsum_date b))
                              (map (dailySummaryRow dayName) (groupBy date filteredRecords));
                          totalStockIn = ws_total_stock_in summ;
                          efficiencyMetrics =
                            \<lparr> return_rate = (if totalStockIn > 0
                                 then (real_of_int (ws_total_returns summ) / real_of_int totalStockIn) * 100
                                 else 0),
                              damage_rate = (if totalStockIn > 0
                                 then (real_of_int (ws_total_damaged summ) / real_of_int totalStockIn) * 100
                                 else 0),
                              rebagging_rate = (if totalStockIn > 0
                                 then (real_of_int (ws_total_rebagging summ) / real_of_int totalStockIn) * 100
                                 else 0),
                              stock_turnover = (if ws_total_stock_out summ > 0
                                 then real_of_int (ws_total_stock_out summ)
                                        / real_of_int (if ws_total_stock_in summ = 0 then 1
                                                       else ws_total_stock_in summ)
                                 else 0) \<rparr>
                      in Inr \<lparr> week_start = weekStart,
                               week_end = weekEnd,
                               total_products = length pms,
                               total_movements = length filteredRecords,
                               summary = summ,
                               product_movements = pms,
                               daily_summary = dailySummary,
                               efficiency_metrics = efficiencyMetrics \<rparr>))))"

subsection \<open>The report bundle\<close>

record ReportData =
  outOfStockProducts :: "OutOfStockItem list"
  stockMovements :: "StockMovement list"
  stockBalances :: "StockBalance list"
  productionIssues :: "ProductionIssue list"
  returnsRebagging :: "ReturnsRebagging list"
  damagedStock :: "DamagedStock list"
  stockHistory :: "StockHistory list"
  weeklyReport :: WeeklyReport

text \<open>Sequencing of computations that may throw: the first exception is the result.\<close>

definition bindE :: "error + 'a \<Rightarrow> ('a \<Rightarrow> error + 'b) \<Rightarrow> error + 'b" where
  "bindE m f = (case m of Inl e \<Rightarrow> Inl e | Inr x \<Rightarrow> f x)"

text \<open>
  \<open>generateReports\<close> filters the records by the date range and computes the eight
  views in the order of the object literal. An exception in a view is caught by the
  \<open>try\<close> block and no report data is set; that is the result \<open>Inl\<close>.
\<close>

definition generateReports ::
  "(string \<Rightarrow> int) \<Rightarrow> (string \<Rightarrow> string) \<Rightarrow> int \<Rightarrow> InventoryRecord list \<Rightarrow> DateRange \<Rightarrow> error + ReportData" where
  "generateReports tm dayName now records dateRange =
     (let filteredRecords = filterRecords tm dateRange records in
      bindE (generateOutOfStockReport tm now filteredRecords) (\<lambda>v1.
      bindE (Inr (generateStockMovementReport tm filteredRecords)) (\<lambda>v2.
      bindE (generateStockBalanceReport tm filteredRecords) (\<lambda>v3.
      bindE (generateProductionReport tm filteredRecords) (\<lambda>v4.
      bindE (generateReturnsRebaggingReport tm filteredRecords) (\<lambda>v5.
      bindE (generateDamagedStockReport tm filteredRecords) (\<lambda>v6.
      bindE (generateStockHistoryReport tm filteredRecords) (\<lambda>v7.
      bindE (generateWeeklyReport tm dayName filteredRecords) (\<lambda>v8.
        Inr \<lparr> outOfStockProducts = v1,
              stockMovements = v2,
              stockBalances = v3,
              productionIssues = v4,
              returnsRebagging = v5,
              damagedStock = v6,
              stockHistory = v7,
              weeklyReport = v8 \<rparr>)))))))))"

section \<open>The entry form\<close>

record FormData =
  itemName :: string
  fd_date :: string
  openingStock :: int
  newStock :: int
  newBalance :: int
  issuedProduction :: int
  fd_returns :: int
  fd_rebagging :: int
  fd_damaged :: int
  closingStock :: int

text \<open>The initial value of the form state (\<open>useState\<close>).\<close>

definition initialFormData :: FormData where
  "initialFormData =
     \<lparr> itemName = [], fd_date = [], openingStock = 0, newStock = 0, newBalance = 0,
       issuedProduction = 0, fd_returns = 0, fd_rebagging = 0, fd_damaged = 0, closingStock = 0 \<rparr>"

text \<open>
  \<open>calculateValues\<close> reads the six inputs of \<open>formData\<close>, the form data of the render
  in which the callback was created, and sets the two derived fields on the state of the
  moment with \<open>setFormData(prev => ({...prev, newBalance, closingStock}))\<close>.
\<close>

definition calculateValues :: "FormData \<Rightarrow> FormData \<Rightarrow> FormData" where
  "calculateValues formData prev =
     (let newBalance' = openingStock formData + newStock formData;
          closingStock' = max 0 (newBalance' - issuedProduction formData + fd_returns formData
                                  + fd_rebagging formData - fd_damaged formData)
      in prev\<lparr> newBalance := newBalance', closingStock := closingStock' \<rparr>)"

text \<open>
  After the first render, which shows \<open>initialFormData\<close>, the effects of the mount run:
  the first sets the date to today, and the effect of \<open>calculateValues\<close> computes the
  derived fields from the form data of that first render. Both updates apply to the same
  state.
\<close>

definition mountedFormData :: "string \<Rightarrow> FormData" where
  "mountedFormData today = calculateValues initialFormData (initialFormData\<lparr> fd_date := today \<rparr>)"

text \<open>
  \<open>handleInputChange(field, value)\<close> is \<open>setFormData(prev => ({...prev, [field]: value}))\<close>.
  The eight inputs that call it are the item name, the date and the six quantities; the
  two derived fields are shown read-only. It sets the one field and nothing else.
\<close>

datatype form_event =
    SetItemName string
  | SetDate string
  | SetOpeningStock int
  | SetNewStock int
  | SetIssuedProduction int
  | SetReturns int
  | SetRebagging int
  | SetDamaged int

fun handleInputChange :: "form_event \<Rightarrow> FormData \<Rightarrow> FormData" where
  "handleInputChange (SetItemName v) prev = prev\<lparr> itemName := v \<rparr>"
| "handleInputChange (SetDate v) prev = prev\<lparr> fd_date := v \<rparr>"
| "handleInputChange (SetOpeningStock v) prev = prev\<lparr> openingStock := v \<rparr>"
| "handleInputChange (SetNewStock v) prev = prev\<lparr> newStock := v \<rparr>"
| "handleInputChange (SetIssuedProduction v) prev = prev\<lparr> issuedProduction := v \<rparr>"
| "handleInputChange (SetReturns v) prev = prev\<lparr> fd_returns := v \<rparr>"
| "handleInputChange (SetRebagging v) prev = prev\<lparr> fd_rebagging := v \<rparr>"
| "handleInputChange (SetDamaged v) prev = prev\<lparr> fd_damaged := v \<rparr>"

text \<open>
  The form data changes in steps, each followed by a render. An input change sets one
  field. The derived fields follow only later: the effect
  \<open>useEffect(() => { calculateValues() }, [calculateValues])\<close> runs after a render whose
  form data has changed, reads the form data of that render and sets the derived fields,
  which the next render shows. Between the two renders the handlers of the form, among
  them \<open>handleSaveRecord\<close>, hold the form data with the new input and the old derived
  fields. A run of the form is therefore a list of steps in which an effect may or may
  not stand between an input change and a save.
\<close>

datatype form_step = Input form_event | Effect

fun formStep :: "FormData \<Rightarrow> form_step \<Rightarrow> FormData" where
  "formStep formData (Input ev) = handleInputChange ev formData"
| "formStep formData Effect = calculateValues formData formData"

definition formAfter :: "string \<Rightarrow> form_step list \<Rightarrow> FormData" where
  "formAfter today steps = foldl formStep (mountedFormData today) steps"

text \<open>
  \<open>String.prototype.trim\<close> is the runtime's; it is the parameter \<open>trim\<close> of
  \<open>handleSaveRecord\<close>. \<open>asciiTrim\<close> is its value on strings of ASCII characters, whose
  white space is the space, tab, line feed, vertical tab, form feed and carriage return;
  it instantiates \<open>trim\<close> on concrete inputs.
\<close>

definition is_space :: "char \<Rightarrow> bool" where
  "is_space c = (of_char c \<in> {32, 9, 10, 11, 12, 13 :: nat})"

definition asciiTrim :: "string \<Rightarrow> string" where
  "asciiTrim s = rev (dropWhile is_space (rev (dropWhile is_space s)))"

datatype save_error = MissingItemName | MissingDate | PastDate

text \<open>
  \<open>handleSaveRecord\<close> up to the record that it hands to the store: the three checks,
  each an early return with a status message, then the record, whose fields are copied
  from the form data of the render; nothing is computed again. The test
  \<open>isDateInPast\<close> against the local calendar day and the time stamp
  \<open>new Date().toISOString()\<close> come from the runtime.
\<close>

definition handleSaveRecord ::
  "(string \<Rightarrow> string) \<Rightarrow> (string \<Rightarrow> bool) \<Rightarrow> string \<Rightarrow> FormData \<Rightarrow> save_error + InventoryRecord" where
  "handleSaveRecord trim isDateInPast nowIso formData =
     (if trim (itemName formData) = [] then Inl MissingItemName
      else if fd_date formData = [] then Inl MissingDate
      else if isDateInPast (fd_date formData) then Inl PastDate
      else Inr \<lparr> item_name = trim (itemName formData),
                 date = fd_date formData,
                 opening_stock = openingStock formData,
                 new_stock = newStock formData,
                 new_balance = newBalance formData,
                 issued_production = issuedProduction formData,
                 returns = fd_returns formData,
                 rebagging = fd_rebagging formData,
                 damaged = fd_damaged formData,
                 closing_stock = closingStock formData,
                 timestamp = nowIso \<rparr>)"

section \<open>Notions of the specification\<close>

text \<open>The records of one product, in the order of the list.\<close>

definition productRecords :: "string \<Rightarrow> InventoryRecord list \<Rightarrow> InventoryRecord list" where
  "productRecords p records = filter (\<lambda>r. item_name r = p) records"

text \<open>
  The example of the specification: product \<open>A\<close> on two days, out of stock on the
  second.
\<close>

definition exampleRecords :: "InventoryRecord list" where
  "exampleRecords =
     [\<lparr> item_name = ''A'', date = ''2024-01-01'', opening_stock = 10, new_stock = 5,
        new_balance = 15, issued_production = 3, returns = 0, rebagging = 0, damaged = 0,
        closing_stock = 12, timestamp = ''2024-01-01T16:00:00.000Z'' \<rparr>,
      \<lparr> item_name = ''A'', date = ''2024-01-02'', opening_stock = 12, new_stock = 0,
        new_balance = 12, issued_production = 12, returns = 0, rebagging = 0, damaged = 0,
        closing_stock = 0, timestamp = ''2024-01-02T16:00:00.000Z'' \<rparr>]"


text \<open>
  The chronologically latest record of a list: a record with the maximal date; among
  several records of that date, the one that comes first in the list.
\<close>

fun latest_of :: "(string \<Rightarrow> int) \<Rightarrow> InventoryRecord list \<Rightarrow> InventoryRecord option" where
  "latest_of tm [] = None"
| "latest_of tm (r # rs) =
     (case latest_of tm rs of
        None \<Rightarrow> Some r
      | Some b \<Rightarrow> (if tm (date r) < tm (date b) then Some b else Some r))"

definition latestRecord :: "(string \<Rightarrow> int) \<Rightarrow> string \<Rightarrow> InventoryRecord list \<Rightarrow> InventoryRecord option" where
  "latestRecord tm p records = latest_of tm (productRecords p records)"

text \<open>The sum of a field over the records of one product.\<close>

definition productTotal :: "(InventoryRecord \<Rightarrow> int) \<Rightarrow> string \<Rightarrow> InventoryRecord list \<Rightarrow> int" where
  "productTotal f p records = sum_list (map f (productRecords p records))"

text \<open>
  \<open>rate\<close> is the percentage of \<open>n\<close> in the denominator \<open>d\<close>: for a positive
  denominator it is the quotient times 100, it is not negative, and it is at most 100
  exactly when the numerator does not exceed the denominator; for the denominator 0 it
  is 0.
\<close>

definition percentage_of :: "int \<Rightarrow> int \<Rightarrow> real \<Rightarrow> bool" where
  "percentage_of n d rate \<longleftrightarrow>
     (0 < d \<longrightarrow> rate = real_of_int n / real_of_int d * 100 \<and> 0 \<le> rate \<and> (rate \<le> 100 \<longleftrightarrow> n \<le> d))
     \<and> (d = 0 \<longrightarrow> rate = 0)"

text \<open>
  A day on which more stock came back (5 returned, 2 rebagged) and was damaged (3) than
  was received (1); the record satisfies the stock equations of the form.
\<close>

definition overReturned :: "InventoryRecord list" where
  "overReturned =
     [\<lparr> item_name = ''A'', date = ''2024-01-01'', opening_stock = 10, new_stock = 1,
        new_balance = 11, issued_production = 0, returns = 5, rebagging = 2, damaged = 3,
        closing_stock = 15, timestamp = ''2024-01-01T16:00:00.000Z'' \<rparr>]"

text \<open>A day with returns, rebagging and damage below the stock received.\<close>

definition returnedRecords :: "InventoryRecord list" where
  "returnedRecords =
     [\<lparr> item_name = ''B'', date = ''2024-01-03'', opening_stock = 0, new_stock = 10,
        new_balance = 10, issued_production = 4, returns = 2, rebagging = 1, damaged = 1,
        closing_stock = 8, timestamp = ''2024-01-03T16:00:00.000Z'' \<rparr>]"

text \<open>
  The total activity of a list of records as the weekly report computes it: the sum of
  the five movement fields \<open>new_stock\<close>, \<open>issued_production\<close>, \<open>returns\<close>,
  \<open>rebagging\<close> and \<open>damaged\<close>.
\<close>

definition activityTotal :: "InventoryRecord list \<Rightarrow> int" where
  "activityTotal rs =
     sum_list (map new_stock rs) + sum_list (map issued_production rs) + sum_list (map returns rs)
       + sum_list (map rebagging rs) + sum_list (map damaged rs)"

text \<open>
  The total activity as the specification words it, the sum of six fields: the sixth is
  taken to be the sixth input of the form, \<open>opening_stock\<close>.
\<close>

definition sixFieldActivity :: "InventoryRecord list \<Rightarrow> int" where
  "sixFieldActivity rs = sum_list (map opening_stock rs) + activityTotal rs"

text \<open>
  A product with a large stock and one unit received; also \<open>new_balance\<close> and
  \<open>closing_stock\<close>, the other fields that could be counted as the sixth, exceed 100.
\<close>

definition stockedRecords :: "InventoryRecord list" where
  "stockedRecords =
     [\<lparr> item_name = ''A'', date = ''2024-01-01'', opening_stock = 200, new_stock = 1,
        new_balance = 201, issued_production = 0, returns = 0, rebagging = 0, damaged = 0,
        closing_stock = 201, timestamp = ''2024-01-01T16:00:00.000Z'' \<rparr>]"

text \<open>The three activity levels of a total.\<close>

definition activityLevel :: "int \<Rightarrow> activity" where
  "activityLevel a = (if a > 100 then high else if a > 50 then medium else low)"

text \<open>The records of one date, in the order of the list.\<close>

definition dateRecords :: "string \<Rightarrow> InventoryRecord list \<Rightarrow> InventoryRecord list" where
  "dateRecords d records = filter (\<lambda>r. date r = d) records"

text \<open>An entry of the out-of-stock view without its \<open>days_since_stock\<close>.\<close>

definition oosEntry :: "OutOfStockItem \<Rightarrow> string \<times> int \<times> string" where
  "oosEntry row = (oos_item_name row, last_stock row, last_date row)"

text \<open>A date range that holds the example records.\<close>

definition exampleRange :: DateRange where
  "exampleRange = \<lparr> startDate = ''2024-01-01'', endDate = ''2024-01-31'' \<rparr>"

section \<open>Properties of the array and map operations\<close>

subsection \<open>Sorting, sums and loops that may throw\<close>

lemma insort_cmp_key:
  fixes k :: "'a \<Rightarrow> 'b::linordered_ab_group_add"
  shows "insort_cmp (\<lambda>a b. k a - k b) x xs = insort_key k x xs"
  by (induction xs) simp_all

lemma js_sort_asc:
  fixes k :: "'a \<Rightarrow> 'b::linordered_ab_group_add"
  shows "js_sort (\<lambda>a b. k a - k b) xs = sort_key k xs"
  by (induction xs) (simp_all add: js_sort_def insort_cmp_key)

lemma js_sort_desc:
  fixes k :: "'a \<Rightarrow> 'b::linordered_ab_group_add"
  shows "js_sort (\<lambda>a b. k b - k a) xs = sort_key (\<lambda>x. - k x) xs"
  using js_sort_asc [of "\<lambda>x. - k x" xs] by simp

lemma mset_insort_cmp: "mset (insort_cmp c x xs) = add_mset x (mset xs)"
  by (induction xs) simp_all

lemma mset_js_sort: "mset (js_sort c xs) = mset xs"
  by (induction xs) (simp_all add: js_sort_def mset_insort_cmp)

lemma set_js_sort: "set (js_sort c xs) = set xs"
  using mset_js_sort [of c xs] by (metis set_mset_mset)

lemma length_js_sort: "length (js_sort c xs) = length xs"
  using mset_js_sort [of c xs] by (metis size_mset)

lemma js_sort_Nil_iff: "js_sort c xs = [] \<longleftrightarrow> xs = []"
  using length_js_sort [of c xs] by (metis length_0_conv)

lemma reduce_sum_acc: "foldl (\<lambda>sum r. sum + f r) a rs = a + sum_list (map f rs)"
  for a :: int
  by (induction rs arbitrary: a) simp_all

lemma reduce_sum_eq: "reduce_sum f rs = sum_list (map f rs)"
  by (simp add: reduce_sum_def reduce_sum_acc)

lemma mapE_Inr_iff: "mapE f xs = Inr ys \<longleftrightarrow> list_all2 (\<lambda>x y. f x = Inr y) xs ys"
proof (induction xs arbitrary: ys)
  case Nil
  then show ?case by auto
next
  case (Cons x xs)
  show ?case
    by (cases "f x"; cases "mapE f xs"; cases ys) (auto simp: Cons.IH[symmetric])
qed

lemma mapE_total:
  assumes "\<And>x. x \<in> set xs \<Longrightarrow> \<exists>y. f x = Inr y"
  shows "\<exists>ys. mapE f xs = Inr ys"
  using assms
proof (induction xs)
  case Nil
  then show ?case by simp
next
  case (Cons x xs)
  then obtain y where "f x = Inr y" by auto
  moreover from Cons obtain ys where "mapE f xs = Inr ys" by auto
  ultimately show ?case by simp
qed

subsection \<open>Grouping\<close>

lemma push_group_keys: "map fst (push_group k r m) = (if k \<in> set (map fst m) then map fst m else map fst m @ [k])"
  by (induction m) (auto split: if_splits)

lemma push_group_map_of:
  "map_of (push_group k r m) k' =
     (if k' = k then Some (case map_of m k of None \<Rightarrow> [r] | Some rs \<Rightarrow> rs @ [r]) else map_of m k')"
  by (induction m) auto

lemma push_group_concat: "mset (concat (map snd (push_group k r m))) = add_mset r (mset (concat (map snd m)))"
  by (induction m) auto

lemma push_group_nonempty:
  "(k', rs) \<in> set (push_group k r m) \<Longrightarrow> (\<And>g. g \<in> set m \<Longrightarrow> snd g \<noteq> []) \<Longrightarrow> rs \<noteq> []"
  by (induction m) (force split: if_splits)+

lemma groupBy_acc_distinct:
  "distinct (map fst m) \<Longrightarrow> distinct (map fst (foldl (\<lambda>m r. push_group (key r) r m) m xs))"
  by (induction xs arbitrary: m) (simp_all add: push_group_keys)

lemma groupBy_distinct: "distinct (map fst (groupBy key xs))"
  by (simp add: groupBy_def groupBy_acc_distinct)

lemma groupBy_acc_map_of:
  "map_of (foldl (\<lambda>m r. push_group (key r) r m) m xs) k =
     (case map_of m k of
        None \<Rightarrow> (if k \<in> key ` set xs then Some (filter (\<lambda>r. key r = k) xs) else None)
      | Some rs \<Rightarrow> Some (rs @ filter (\<lambda>r. key r = k) xs))"
proof (induction xs arbitrary: m)
  case Nil
  then show ?case by (simp split: option.splits)
next
  case (Cons x xs)
  show ?case
    by (simp add: Cons.IH push_group_map_of split: option.splits)
qed

lemma groupBy_map_of:
  "map_of (groupBy key xs) k =
     (if k \<in> key ` set xs then Some (filter (\<lambda>r. key r = k) xs) else None)"
  by (simp add: groupBy_def groupBy_acc_map_of)

lemma groupBy_mem_iff:
  "(k, rs) \<in> set (groupBy key xs) \<longleftrightarrow> k \<in> key ` set xs \<and> rs = filter (\<lambda>r. key r = k) xs"
proof -
  have "(k, rs) \<in> set (groupBy key xs) \<longleftrightarrow> map_of (groupBy key xs) k = Some rs"
    using groupBy_distinct [of key xs] by simp
  then show ?thesis by (auto simp: groupBy_map_of)
qed

lemma groupBy_bucket_nonempty: "(k, rs) \<in> set (groupBy key xs) \<Longrightarrow> rs \<noteq> []"
  by (auto simp: groupBy_mem_iff filter_empty_conv)

lemma groupBy_acc_mset:
  "mset (concat (map snd (foldl (\<lambda>m r. push_group (key r) r m) m xs))) = mset (concat (map snd m)) + mset xs"
  by (induction xs arbitrary: m) (simp_all add: push_group_concat)

lemma groupBy_mset: "mset (concat (map snd (groupBy key xs))) = mset xs"
  by (simp add: groupBy_def groupBy_acc_mset)

lemma sum_list_concat_map:
  fixes f :: "'a \<Rightarrow> int"
  shows "sum_list (map (\<lambda>g. sum_list (map f (snd g))) gs) = sum_list (map f (concat (map snd gs)))"
  by (induction gs) simp_all

lemma sum_list_mset_cong:
  fixes f :: "'a \<Rightarrow> int"
  assumes "mset xs = mset ys"
  shows "sum_list (map f xs) = sum_list (map f ys)"
proof -
  have "sum_list (map f xs) = sum_mset (image_mset f (mset xs))"
    by (metis mset_map sum_mset_sum_list)
  also have "\<dots> = sum_mset (image_mset f (mset ys))" by (simp add: assms)
  also have "\<dots> = sum_list (map f ys)" by (metis mset_map sum_mset_sum_list)
  finally show ?thesis .
qed

lemma groupBy_sum:
  fixes f :: "'a \<Rightarrow> int"
  shows "sum_list (map (\<lambda>g. sum_list (map f (snd g))) (groupBy key xs)) = sum_list (map f xs)"
  by (simp add: sum_list_concat_map sum_list_mset_cong [OF groupBy_mset])

section \<open>Stock movements: conservation of the stock-in total\<close>

lemma total_in_row: "total_in (stockMovementRow g) = sum_list (map (\<lambda>r. new_stock r + returns r + rebagging r) (snd g))"
proof -
  have acc: "foldl (\<lambda>sum r. sum + new_stock r + returns r + rebagging r) a rs
          = a + sum_list (map (\<lambda>r. new_stock r + returns r + rebagging r) rs)" for a :: int and rs
    by (induction rs arbitrary: a) simp_all
  show ?thesis by (cases g) (simp add: stockMovementRow_def Let_def acc)
qed

text \<open>
  C6. For every filtered record set, the sum of \<open>total_in\<close> over all date rows of the
  stock-movements view equals the sum of \<open>new_stock + returns + rebagging\<close> over all
  records of the filtered set: grouping by date conserves the stock-in total.
\<close>

theorem stock_in_conservation:
  "sum_list (map total_in (generateStockMovementReport tm filteredRecords))
     = sum_list (map (\<lambda>r. new_stock r + returns r + rebagging r) filteredRecords)"
proof -
  let ?f = "\<lambda>r. new_stock r + returns r + rebagging r"
  have "sum_list (map total_in (generateStockMovementReport tm filteredRecords))
          = sum_list (map total_in (map stockMovementRow (groupBy date filteredRecords)))"
    unfolding generateStockMovementReport_def
    by (rule sum_list_mset_cong) (rule mset_js_sort)
  also have "\<dots> = sum_list (map (\<lambda>g. sum_list (map ?f (snd g))) (groupBy date filteredRecords))"
    by (simp add: comp_def total_in_row)
  also have "\<dots> = sum_list (map ?f filteredRecords)"
    by (rule groupBy_sum)
  finally show ?thesis .
qed

section \<open>The date filter and the empty input\<close>

lemma filterRecords_idem: "filterRecords tm dateRange (filterRecords tm dateRange records) = filterRecords tm dateRange records"
  by (simp add: filterRecords_def)

text \<open>
  C7. For every record list and date range, aggregating the records that the date filter
  keeps gives the same result as aggregating the whole list (the aggregator filters
  first), and applying the date filter twice equals applying it once.
\<close>

theorem filter_then_aggregate:
  "generateReports tm dayName now (filterRecords tm dateRange records) dateRange
     = generateReports tm dayName now records dateRange
   \<and> filterRecords tm dateRange (filterRecords tm dateRange records)
     = filterRecords tm dateRange records"
  by (simp add: generateReports_def filterRecords_idem)

text \<open>
  C9. Aggregating an empty record list does not throw; it yields the bundle in which
  all seven per-view arrays are empty and the weekly report has empty week boundaries,
  zero product and movement counts, an all-zero summary, all-zero efficiency metrics and
  empty product and daily lists.
\<close>

theorem empty_input_bundle:
  "generateReports tm dayName now [] dateRange =
     Inr \<lparr> outOfStockProducts = [],
           stockMovements = [],
           stockBalances = [],
           productionIssues = [],
           returnsRebagging = [],
           damagedStock = [],
           stockHistory = [],
           weeklyReport =
             \<lparr> week_start = '''',
               week_end = '''',
               total_products = 0,
               total_movements = 0,
               summary = \<lparr> ws_total_stock_in = 0, ws_total_stock_out = 0, ws_total_returns = 0,
                           ws_total_rebagging = 0, ws_total_damaged = 0, ws_net_change = 0 \<rparr>,
               product_movements = [],
               daily_summary = [],
               efficiency_metrics = \<lparr> return_rate = 0, damage_rate = 0, rebagging_rate = 0,
                                      stock_turnover = 0 \<rparr> \<rparr> \<rparr>"
  by (simp add: generateReports_def filterRecords_def bindE_def groupBy_def js_sort_def
      generateOutOfStockReport_def generateStockMovementReport_def generateStockBalanceReport_def
      generateProductionReport_def generateReturnsRebaggingReport_def generateDamagedStockReport_def
      generateStockHistoryReport_def generateWeeklyReport_def emptyWeeklyReport_def)

section \<open>The entry form: the stock equations\<close>

text \<open>
  The effect establishes the two equations on the form data that it has read, and a
  record saved from such form data satisfies them.
\<close>

lemma calculateValues_inv:
  "newBalance (calculateValues fd fd) = openingStock fd + newStock fd
   \<and> closingStock (calculateValues fd fd) =
       max 0 (newBalance (calculateValues fd fd) - issuedProduction fd
              + fd_returns fd + fd_rebagging fd - fd_damaged fd)
   \<and> openingStock (calculateValues fd fd) = openingStock fd
   \<and> newStock (calculateValues fd fd) = newStock fd
   \<and> issuedProduction (calculateValues fd fd) = issuedProduction fd
   \<and> fd_returns (calculateValues fd fd) = fd_returns fd
   \<and> fd_rebagging (calculateValues fd fd) = fd_rebagging fd
   \<and> fd_damaged (calculateValues fd fd) = fd_damaged fd"
  by (simp add: calculateValues_def Let_def)

lemma calculateValues_idem:
  "calculateValues (calculateValues fd fd) (calculateValues fd fd) = calculateValues fd fd"
  by (simp add: calculateValues_def Let_def)

lemma save_after_effect:
  assumes "handleSaveRecord trim isDateInPast nowIso (calculateValues fd fd) = Inr r"
  shows "new_balance r = opening_stock r + new_stock r
       \<and> closing_stock r = max 0 (new_balance r - issued_production r + returns r + rebagging r - damaged r)
       \<and> 0 \<le> closing_stock r"
proof -
  have r: "new_balance r = newBalance (calculateValues fd fd)"
      "opening_stock r = openingStock (calculateValues fd fd)"
      "new_stock r = newStock (calculateValues fd fd)"
      "issued_production r = issuedProduction (calculateValues fd fd)"
      "returns r = fd_returns (calculateValues fd fd)"
      "rebagging r = fd_rebagging (calculateValues fd fd)"
      "damaged r = fd_damaged (calculateValues fd fd)"
      "closing_stock r = closingStock (calculateValues fd fd)"
    using assms unfolding handleSaveRecord_def by (auto split: if_splits)
  show ?thesis
    unfolding r using calculateValues_inv [of fd] by simp
qed

text \<open>
  C5. The claim is that for every form input the record that the form computes and
  persists satisfies \<open>new_balance = opening_stock + new_stock\<close> and
  \<open>closing_stock = max(0, new_balance - issued_production + returns + rebagging - damaged)\<close>.
  The form computes these values in \<open>calculateValues\<close>, but \<open>handleSaveRecord\<close> copies
  the derived fields of its render. On a form mounted on 2024-01-02, after the input
  changes item name \<open>A1\<close>, opening stock 12 and new stock 3, a save from the render that
  holds these inputs, before the update of the effect is rendered, builds a record with
  \<open>opening_stock = 12\<close>, \<open>new_stock = 3\<close> and \<open>new_balance = 0\<close>, where the first
  equation requires 15; its \<open>closing_stock\<close> is 0 with 15 units on hand. With the
  effect between the last input change and the save the record has 15 and 15.
\<close>

theorem save_before_effect_stale:
  "handleSaveRecord asciiTrim (\<lambda>d. False) ''2024-01-02T08:00:00.000Z''
     (formAfter ''2024-01-02''
        [Input (SetItemName ''A1''), Input (SetOpeningStock 12), Input (SetNewStock 3)])
     = Inr \<lparr> item_name = ''A1'', date = ''2024-01-02'', opening_stock = 12, new_stock = 3,
             new_balance = 0, issued_production = 0, returns = 0, rebagging = 0, damaged = 0,
             closing_stock = 0, timestamp = ''2024-01-02T08:00:00.000Z'' \<rparr>
   \<and> (0::int) \<noteq> 12 + 3
   \<and> handleSaveRecord asciiTrim (\<lambda>d. False) ''2024-01-02T08:00:00.000Z''
       (formAfter ''2024-01-02''
          [Input (SetItemName ''A1''), Input (SetOpeningStock 12), Input (SetNewStock 3), Effect])
       = Inr \<lparr> item_name = ''A1'', date = ''2024-01-02'', opening_stock = 12, new_stock = 3,
               new_balance = 15, issued_production = 0, returns = 0, rebagging = 0, damaged = 0,
               closing_stock = 15, timestamp = ''2024-01-02T08:00:00.000Z'' \<rparr>"
  by (simp add: handleSaveRecord_def formAfter_def mountedFormData_def calculateValues_def
      initialFormData_def asciiTrim_def is_space_def Let_def)

section \<open>Rows of the per-product views\<close>

lemma list_all2_right_mem:
  "list_all2 P xs ys \<Longrightarrow> y \<in> set ys \<Longrightarrow> \<exists>x \<in> set xs. P x y"
  by (induction rule: list_all2_induct) auto

lemma list_all2_left_mem:
  "list_all2 P xs ys \<Longrightarrow> x \<in> set xs \<Longrightarrow> \<exists>y \<in> set ys. P x y"
  by (induction rule: list_all2_induct) auto

lemma groupBy_rows:
  assumes "\<And>k rs. rs \<noteq> [] \<Longrightarrow> \<exists>y. row (k, rs) = Inr y"
  shows "\<exists>rows. mapE row (groupBy key xs) = Inr rows
           \<and> list_all2 (\<lambda>g y. row g = Inr y) (groupBy key xs) rows"
proof -
  have "\<exists>y. row g = Inr y" if "g \<in> set (groupBy key xs)" for g
  proof -
    obtain k rs where g: "g = (k, rs)" by (cases g)
    with that have "rs \<noteq> []" using groupBy_bucket_nonempty by fast
    then show ?thesis using assms g by simp
  qed
  then obtain rows where "mapE row (groupBy key xs) = Inr rows"
    using mapE_total [of "groupBy key xs" row] by blast
  then show ?thesis by (auto simp: mapE_Inr_iff)
qed

section \<open>Production usage: the average is defined\<close>

lemma productionRow_ok:
  assumes "rs \<noteq> []"
  shows "\<exists>y. productionRow tm (k, rs) = Inr y \<and> pi_item_name y = k
            \<and> total_issued y = sum_list (map issued_production rs)
            \<and> avg_daily_usage y = Some (real_of_int (sum_list (map issued_production rs)) / real (length rs))"
proof -
  have "js_sort (\<lambda>a b. tm (date b) - tm (date a)) rs \<noteq> []"
    using assms by (simp add: js_sort_Nil_iff)
  then show ?thesis
    using assms
    by (auto simp: productionRow_def Let_def js_div_def reduce_sum_eq split: list.splits)
qed

text \<open>
  C10. Every per-product bucket that grouping the filtered records by \<open>item_name\<close>
  forms contains at least one record. So the production report does not throw, and in
  every row that it emits the division \<open>total_issued / record_count\<close> has a positive
  divisor: \<open>avg_daily_usage\<close> is the finite quotient of the product's total by the
  number of its records.
\<close>

theorem production_average_defined:
  "(\<forall>g \<in> set (groupBy item_name filteredRecords). snd g \<noteq> [])
   \<and> (\<exists>rows. generateProductionReport tm filteredRecords = Inr rows
         \<and> (\<forall>row \<in> set rows.
               0 < length (productRecords (pi_item_name row) filteredRecords)
             \<and> avg_daily_usage row =
                 Some (real_of_int (total_issued row)
                         / real (length (productRecords (pi_item_name row) filteredRecords)))))"
proof
  show "\<forall>g \<in> set (groupBy item_name filteredRecords). snd g \<noteq> []"
    using groupBy_bucket_nonempty [of _ _ item_name filteredRecords] by auto
next
  let ?gs = "groupBy item_name filteredRecords"
  obtain rows0 where rows0: "mapE (productionRow tm) ?gs = Inr rows0"
      and all2: "list_all2 (\<lambda>g y. productionRow tm g = Inr y) ?gs rows0"
    using groupBy_rows [of "productionRow tm" item_name filteredRecords] productionRow_ok
    by blast
  let ?rows = "js_sort (\<lambda>a b. total_issued b - total_issued a)
                 (filter (\<lambda>item. total_issued item > 0) rows0)"
  have res: "generateProductionReport tm filteredRecords = Inr ?rows"
    by (simp add: generateProductionReport_def rows0)
  have "0 < length (productRecords (pi_item_name row) filteredRecords)
      \<and> avg_daily_usage row =
          Some (real_of_int (total_issued row)
                  / real (length (productRecords (pi_item_name row) filteredRecords)))"
    if "row \<in> set ?rows" for row
  proof -
    from that have "row \<in> set rows0" by (simp add: set_js_sort)
    then obtain g where g: "g \<in> set ?gs" "productionRow tm g = Inr row"
      using list_all2_right_mem [OF all2] by blast
    obtain k rs where krs: "g = (k, rs)" by (cases g)
    with g have rs: "rs = productRecords k filteredRecords" "rs \<noteq> []"
      by (auto simp: groupBy_mem_iff productRecords_def filter_empty_conv)
    from productionRow_ok [OF rs(2), of tm k] g krs rs show ?thesis by auto
  qed
  with res show "\<exists>rows. generateProductionReport tm filteredRecords = Inr rows
         \<and> (\<forall>row \<in> set rows.
               0 < length (productRecords (pi_item_name row) filteredRecords)
             \<and> avg_daily_usage row =
                 Some (real_of_int (total_issued row)
                         / real (length (productRecords (pi_item_name row) filteredRecords))))"
    by blast
qed


theorem production_average_defined_witness:
  "(''A'', exampleRecords) \<in> set (groupBy item_name exampleRecords)
   \<and> snd (''A'', exampleRecords) \<noteq> []
   \<and> generateProductionReport isoTime exampleRecords =
       Inr [\<lparr> pi_item_name = ''A'', total_issued = 15, avg_daily_usage = Some (15 / 2),
              last_issued_date = ''2024-01-02'', stock_level = 0 \<rparr>]
   \<and> 0 < length (productRecords ''A'' exampleRecords)"
proof -
  have m: "(''A'', exampleRecords) \<in> set (groupBy item_name exampleRecords)"
    by code_simp
  have e: "generateProductionReport isoTime exampleRecords =
       Inr [\<lparr> pi_item_name = ''A'', total_issued = 15, avg_daily_usage = Some (15 / 2),
              last_issued_date = ''2024-01-02'', stock_level = 0 \<rparr>]"
    by code_simp
  from production_average_defined [of exampleRecords isoTime] m e show ?thesis
    by auto
qed

section \<open>Out of stock: the latest record\<close>

lemma latest_of_None_iff: "latest_of tm rs = None \<longleftrightarrow> rs = []"
  by (cases rs) (auto split: option.splits)

lemma latest_of_max:
  "latest_of tm rs = Some r \<Longrightarrow> r \<in> set rs \<and> (\<forall>r' \<in> set rs. tm (date r') \<le> tm (date r))"
proof (induction rs arbitrary: r)
  case Nil
  then show ?case by simp
next
  case (Cons a rs)
  show ?case
  proof (cases "latest_of tm rs")
    case None
    then have "rs = []" by (simp add: latest_of_None_iff)
    with Cons.prems show ?thesis by simp
  next
    case (Some b)
    with Cons.IH [of b] have b: "b \<in> set rs" "\<forall>r' \<in> set rs. tm (date r') \<le> tm (date b)"
      by auto
    from Cons.prems Some b show ?thesis
      by (auto split: if_splits)
  qed
qed

lemma sort_desc_latest:
  "js_sort (\<lambda>a b. tm (date b) - tm (date a)) rs =
     (case latest_of tm rs of None \<Rightarrow> [] | Some r \<Rightarrow> r # tl (js_sort (\<lambda>a b. tm (date b) - tm (date a)) rs))"
proof (induction rs)
  case Nil
  then show ?case by (simp add: js_sort_def)
next
  case (Cons a rs)
  let ?c = "\<lambda>a b. tm (date b) - tm (date a)"
  have step: "js_sort ?c (a # rs) = insort_cmp ?c a (js_sort ?c rs)"
    by (simp add: js_sort_def)
  show ?case
  proof (cases "latest_of tm rs")
    case None
    then have "rs = []" by (simp add: latest_of_None_iff)
    then show ?thesis by (simp add: js_sort_def)
  next
    case (Some b)
    with Cons.IH obtain t where t: "js_sort ?c rs = b # t"
      by (auto split: option.splits)
    show ?thesis
      unfolding step t using Some by auto
  qed
qed

lemma floor_days: "\<lfloor>real_of_int a / real_of_int (1000 * 60 * 60 * 24)\<rfloor> = a div 86400000"
proof -
  have "\<lfloor>real_of_int a / real_of_int 86400000\<rfloor> = a div 86400000"
    by (rule floor_divide_of_int_eq)
  then show ?thesis by simp
qed

lemma outOfStockRow_ok:
  assumes "rs \<noteq> []"
  shows "\<exists>r. latest_of tm rs = Some r
           \<and> outOfStockRow tm now (k, rs) =
               Inr \<lparr> oos_item_name = k, last_stock = closing_stock r, last_date = date r,
                     days_since_stock = (now - tm (date r)) div 86400000 \<rparr>"
proof -
  from assms obtain r where r: "latest_of tm rs = Some r"
    by (cases "latest_of tm rs") (auto simp: latest_of_None_iff)
  then obtain t where t: "js_sort (\<lambda>a b. tm (date b) - tm (date a)) rs = r # t"
    using sort_desc_latest [of tm rs] by simp
  have "outOfStockRow tm now (k, rs) =
          Inr \<lparr> oos_item_name = k, last_stock = closing_stock r, last_date = date r,
                days_since_stock =
                  \<lfloor>real_of_int (now - tm (date r)) / real_of_int (1000 * 60 * 60 * 24)\<rfloor> \<rparr>"
    unfolding outOfStockRow_def by (simp only: t prod.case list.case)
  then show ?thesis
    using r by (simp only: floor_days) simp
qed

lemma list_all2_map_eq:
  "list_all2 (\<lambda>x y. f y = g x) xs ys \<Longrightarrow> map f ys = map g xs"
  by (induction rule: list_all2_induct) auto

lemma distinct_map_js_sort: "distinct (map f (js_sort c xs)) \<longleftrightarrow> distinct (map f xs)"
proof -
  have "mset (map f (js_sort c xs)) = mset (map f xs)"
    by (simp add: mset_js_sort)
  then show ?thesis by (rule mset_eq_imp_distinct_iff)
qed

lemma js_sort_desc_sorted:
  fixes k :: "'a \<Rightarrow> int"
  shows "sorted_wrt (\<lambda>a b. k a \<ge> k b) (js_sort (\<lambda>a b. k b - k a) xs)"
proof -
  have "sorted (map (\<lambda>x. - k x) (sort_key (\<lambda>x. - k x) xs))"
    by (rule sorted_sort_key)
  then show ?thesis
    by (simp add: js_sort_desc sorted_map)
qed

lemma latestRecord_max:
  assumes "latestRecord tm p records = Some r"
  shows "r \<in> set records \<and> item_name r = p
       \<and> (\<forall>r' \<in> set records. item_name r' = p \<longrightarrow> tm (date r') \<le> tm (date r))"
  using latest_of_max [of tm "productRecords p records" r] assms
  by (auto simp: latestRecord_def productRecords_def)

lemma out_of_stock_rows:
  fixes tm now filteredRecords
  defines "gs \<equiv> groupBy item_name filteredRecords"
  shows "\<exists>rows0. generateOutOfStockReport tm now filteredRecords =
            Inr (js_sort (\<lambda>a b. days_since_stock b - days_since_stock a)
                   (filter (\<lambda>item. last_stock item = 0) rows0))
          \<and> map oos_item_name rows0 = map fst gs
          \<and> (\<forall>row \<in> set rows0. \<exists>r. latestRecord tm (oos_item_name row) filteredRecords = Some r
                \<and> row = \<lparr> oos_item_name = item_name r, last_stock = closing_stock r, last_date = date r,
                           days_since_stock = (now - tm (date r)) div 86400000 \<rparr>)"
proof -
  obtain rows0 where rows0: "mapE (outOfStockRow tm now) gs = Inr rows0"
      and all2: "list_all2 (\<lambda>g y. outOfStockRow tm now g = Inr y) gs rows0"
    unfolding gs_def
    using groupBy_rows [of "outOfStockRow tm now" item_name filteredRecords] outOfStockRow_ok
    by blast
  have row: "\<exists>r. latestRecord tm (fst g) filteredRecords = Some r
               \<and> y = \<lparr> oos_item_name = item_name r, last_stock = closing_stock r, last_date = date r,
                         days_since_stock = (now - tm (date r)) div 86400000 \<rparr>
               \<and> oos_item_name y = fst g"
    if "g \<in> set gs" "outOfStockRow tm now g = Inr y" for g y
  proof -
    obtain k rs where g: "g = (k, rs)" by (cases g)
    with that have rs: "rs = productRecords k filteredRecords" "rs \<noteq> []"
      by (auto simp: gs_def groupBy_mem_iff productRecords_def filter_empty_conv)
    from outOfStockRow_ok [OF rs(2), of tm now k] obtain r where
      r: "latest_of tm rs = Some r"
         "outOfStockRow tm now (k, rs) =
               Inr \<lparr> oos_item_name = k, last_stock = closing_stock r, last_date = date r,
                     days_since_stock = (now - tm (date r)) div 86400000 \<rparr>"
      by blast
    have "item_name r = k"
      using latest_of_max [OF r(1)] by (simp add: rs(1) productRecords_def)
    with r that g rs show ?thesis by (auto simp: latestRecord_def)
  qed
  have "list_all2 (\<lambda>g y. oos_item_name y = fst g) gs rows0"
    using all2 by (rule list.rel_mono_strong) (use row in blast)
  then have names: "map oos_item_name rows0 = map fst gs"
    by (rule list_all2_map_eq)
  have "\<exists>r. latestRecord tm (oos_item_name y) filteredRecords = Some r
             \<and> y = \<lparr> oos_item_name = item_name r, last_stock = closing_stock r, last_date = date r,
                       days_since_stock = (now - tm (date r)) div 86400000 \<rparr>"
    if "y \<in> set rows0" for y
    using list_all2_right_mem [OF all2 that] row by metis
  with names rows0 show ?thesis
    by (auto simp: generateOutOfStockReport_def gs_def)
qed

lemma groupBy_keys: "set (map fst (groupBy key xs)) = key ` set xs"
proof -
  have "k \<in> fst ` set (groupBy key xs) \<longleftrightarrow> k \<in> key ` set xs" for k
    using map_of_eq_None_iff [of "groupBy key xs" k]
    by (simp add: groupBy_map_of split: if_splits)
  then show ?thesis by auto
qed

text \<open>
  C2. For every list of records in range the out-of-stock report does not throw, and
  its view contains a product if and only if the latest record of that product has
  \<open>closing_stock = 0\<close>. Each entry carries that record's closing stock and date,
  \<open>days_since_stock\<close> is the number of whole days in \<open>today - last_date\<close> (the floor
  of the quotient by the milliseconds of a day), the entries are in descending order of
  \<open>days_since_stock\<close>, and no product has two entries. The latest record of a product
  is one of its records in range, and no record of the product has a later date.
\<close>

theorem out_of_stock_view:
  "\<exists>rows. generateOutOfStockReport tm now filteredRecords = Inr rows
     \<and> (\<forall>p. (\<exists>row \<in> set rows. oos_item_name row = p)
              \<longleftrightarrow> (\<exists>r. latestRecord tm p filteredRecords = Some r \<and> closing_stock r = 0))
     \<and> (\<forall>row \<in> set rows. \<exists>r.
            latestRecord tm (oos_item_name row) filteredRecords = Some r
          \<and> last_stock row = closing_stock r
          \<and> last_date row = date r
          \<and> days_since_stock row = (now - tm (date r)) div 86400000)
     \<and> sorted_wrt (\<lambda>a b. days_since_stock a \<ge> days_since_stock b) rows
     \<and> distinct (map oos_item_name rows)
     \<and> (\<forall>p r. latestRecord tm p filteredRecords = Some r \<longrightarrow>
            r \<in> set filteredRecords \<and> item_name r = p
          \<and> (\<forall>r' \<in> set filteredRecords. item_name r' = p \<longrightarrow> tm (date r') \<le> tm (date r)))"
proof -
  let ?gs = "groupBy item_name filteredRecords"
  obtain rows0 where
    res: "generateOutOfStockReport tm now filteredRecords =
            Inr (js_sort (\<lambda>a b. days_since_stock b - days_since_stock a)
                   (filter (\<lambda>item. last_stock item = 0) rows0))"
    and names: "map oos_item_name rows0 = map fst ?gs"
    and row: "\<And>row. row \<in> set rows0 \<Longrightarrow>
                \<exists>r. latestRecord tm (oos_item_name row) filteredRecords = Some r
                  \<and> row = \<lparr> oos_item_name = item_name r, last_stock = closing_stock r, last_date = date r,
                           days_since_stock = (now - tm (date r)) div 86400000 \<rparr>"
    using out_of_stock_rows [of tm now filteredRecords] by blast
  let ?rows = "js_sort (\<lambda>a b. days_since_stock b - days_since_stock a)
                 (filter (\<lambda>item. last_stock item = 0) rows0)"
  have mem: "x \<in> set ?rows \<longleftrightarrow> x \<in> set rows0 \<and> last_stock x = 0" for x
    by (simp add: set_js_sort)
  have c1: "\<forall>p. (\<exists>row \<in> set ?rows. oos_item_name row = p)
              \<longleftrightarrow> (\<exists>r. latestRecord tm p filteredRecords = Some r \<and> closing_stock r = 0)"
  proof (intro allI iffI)
    fix p
    assume "\<exists>row \<in> set ?rows. oos_item_name row = p"
    then obtain x where x: "x \<in> set rows0" "last_stock x = 0" "oos_item_name x = p"
      using mem by blast
    from row [OF x(1)] x(2,3) show "\<exists>r. latestRecord tm p filteredRecords = Some r \<and> closing_stock r = 0"
      by auto
  next
    fix p
    assume "\<exists>r. latestRecord tm p filteredRecords = Some r \<and> closing_stock r = 0"
    then obtain r where r: "latestRecord tm p filteredRecords = Some r" "closing_stock r = 0"
      by blast
    then have "p \<in> item_name ` set filteredRecords"
      using latestRecord_max [OF r(1)] by auto
    then have "p \<in> set (map oos_item_name rows0)"
      by (simp only: names groupBy_keys)
    then obtain x where x: "x \<in> set rows0" "oos_item_name x = p" by auto
    from row [OF x(1)] r x(2) have "last_stock x = 0" by auto
    with x show "\<exists>row \<in> set ?rows. oos_item_name row = p"
      using mem by blast
  qed
  have c2: "\<forall>x \<in> set ?rows. \<exists>r. latestRecord tm (oos_item_name x) filteredRecords = Some r
          \<and> last_stock x = closing_stock r
          \<and> last_date x = date r
          \<and> days_since_stock x = (now - tm (date r)) div 86400000"
  proof
    fix x assume "x \<in> set ?rows"
    then have "x \<in> set rows0" using mem by blast
    from row [OF this] obtain r where
      r: "latestRecord tm (oos_item_name x) filteredRecords = Some r"
         "x = \<lparr> oos_item_name = item_name r, last_stock = closing_stock r, last_date = date r,
                           days_since_stock = (now - tm (date r)) div 86400000 \<rparr>"
      by blast
    have "last_stock x = closing_stock r \<and> last_date x = date r
          \<and> days_since_stock x = (now - tm (date r)) div 86400000"
      by (subst (1 2 3) r(2)) simp
    with r(1) show "\<exists>r. latestRecord tm (oos_item_name x) filteredRecords = Some r
          \<and> last_stock x = closing_stock r
          \<and> last_date x = date r
          \<and> days_since_stock x = (now - tm (date r)) div 86400000" by blast
  qed
  have c3: "sorted_wrt (\<lambda>a b. days_since_stock a \<ge> days_since_stock b) ?rows"
    by (rule js_sort_desc_sorted)
  have "distinct (map oos_item_name rows0)"
    by (simp only: names groupBy_distinct)
  then have c4: "distinct (map oos_item_name ?rows)"
    by (simp add: distinct_map_js_sort distinct_map_filter)
  have c5: "\<forall>p r. latestRecord tm p filteredRecords = Some r \<longrightarrow>
            r \<in> set filteredRecords \<and> item_name r = p
          \<and> (\<forall>r' \<in> set filteredRecords. item_name r' = p \<longrightarrow> tm (date r') \<le> tm (date r))"
    using latestRecord_max by blast
  from res c1 c2 c3 c4 c5 show ?thesis
    by (intro exI [of _ ?rows] conjI) assumption+
qed

theorem out_of_stock_view_witness:
  "generateOutOfStockReport isoTime 1704240000000 exampleRecords =
     Inr [\<lparr> oos_item_name = ''A'', last_stock = 0, last_date = ''2024-01-02'', days_since_stock = 1 \<rparr>]
   \<and> latestRecord isoTime ''A'' exampleRecords = Some (exampleRecords ! 1)
   \<and> closing_stock (exampleRecords ! 1) = 0
   \<and> (1704240000000 - isoTime (date (exampleRecords ! 1))) div 86400000 = 1"
proof -
  have e: "generateOutOfStockReport isoTime 1704240000000 exampleRecords =
     Inr [\<lparr> oos_item_name = ''A'', last_stock = 0, last_date = ''2024-01-02'', days_since_stock = 1 \<rparr>]"
    by code_simp
  have l: "latestRecord isoTime ''A'' exampleRecords = Some (exampleRecords ! 1)"
    by code_simp
  have c: "closing_stock (exampleRecords ! 1) = 0" by code_simp
  from out_of_stock_view [of isoTime 1704240000000 exampleRecords] e l c
  show ?thesis by auto
qed

section \<open>Rows of the returns, damaged-stock and weekly product views\<close>

lemma per_product_rows:
  assumes "\<And>k rs. rs \<noteq> [] \<Longrightarrow> \<exists>y. row (k, rs) = Inr y"
  shows "\<exists>rows0. mapE row (groupBy item_name records) = Inr rows0
     \<and> (\<forall>y \<in> set rows0. \<exists>k \<in> item_name ` set records. row (k, productRecords k records) = Inr y)
     \<and> (\<forall>k \<in> item_name ` set records. \<exists>y \<in> set rows0. row (k, productRecords k records) = Inr y)"
proof -
  let ?gs = "groupBy item_name records"
  obtain rows0 where rows0: "mapE row ?gs = Inr rows0"
      and all2: "list_all2 (\<lambda>g y. row g = Inr y) ?gs rows0"
    using groupBy_rows [of row item_name records] assms by blast
  have a: "\<exists>k \<in> item_name ` set records. row (k, productRecords k records) = Inr y"
    if "y \<in> set rows0" for y
  proof -
    from list_all2_right_mem [OF all2 that] obtain g where g: "g \<in> set ?gs" "row g = Inr y"
      by blast
    obtain k rs where krs: "g = (k, rs)" by (cases g)
    with g(1) have "k \<in> item_name ` set records" "rs = productRecords k records"
      by (simp_all add: groupBy_mem_iff productRecords_def)
    with g(2) krs show ?thesis by blast
  qed
  have b: "\<exists>y \<in> set rows0. row (k, productRecords k records) = Inr y"
    if "k \<in> item_name ` set records" for k
  proof -
    from that have "(k, productRecords k records) \<in> set ?gs"
      by (simp add: groupBy_mem_iff productRecords_def)
    from list_all2_left_mem [OF all2 this] show ?thesis .
  qed
  from rows0 a b show ?thesis by blast
qed

lemma productRecords_nonempty: "k \<in> item_name ` set records \<Longrightarrow> productRecords k records \<noteq> []"
  by (auto simp: productRecords_def filter_empty_conv)

lemma sorted_nonempty:
  assumes "rs \<noteq> []"
  shows "\<exists>r t. js_sort c rs = r # t"
  using assms js_sort_Nil_iff [of c rs] by (cases "js_sort c rs") auto

lemma reduce_sum_js_sort: "reduce_sum f (js_sort c rs) = sum_list (map f rs)"
  by (simp add: reduce_sum_eq sum_list_mset_cong [OF mset_js_sort])

lemma returnsRebaggingRow_ok:
  assumes "rs \<noteq> []"
  shows "\<exists>y. returnsRebaggingRow tm (k, rs) = Inr y
           \<and> rr_item_name y = k
           \<and> rr_total_returns y = sum_list (map returns rs)
           \<and> rr_total_rebagging y = sum_list (map rebagging rs)
           \<and> rr_return_rate y =
               (if sum_list (map new_stock rs) > 0
                then real_of_int (sum_list (map returns rs)) / real_of_int (sum_list (map new_stock rs)) * 100
                else 0)"
proof -
  obtain r t where "js_sort (\<lambda>a b. tm (date b) - tm (date a)) rs = r # t"
    using sorted_nonempty [OF assms] by blast
  then show ?thesis
    by (simp add: returnsRebaggingRow_def Let_def reduce_sum_eq)
qed

lemma damagedStockRow_ok:
  assumes "rs \<noteq> []"
  shows "\<exists>y. damagedStockRow tm (k, rs) = Inr y
           \<and> ds_item_name y = k
           \<and> ds_total_damaged y = sum_list (map damaged rs)
           \<and> ds_total_stock_in y = sum_list (map new_stock rs)
           \<and> damage_percentage y =
               (if sum_list (map new_stock rs) > 0
                then real_of_int (sum_list (map damaged rs)) / real_of_int (sum_list (map new_stock rs)) * 100
                else 0)"
proof -
  obtain r t where "js_sort (\<lambda>a b. tm (date b) - tm (date a)) rs = r # t"
    using sorted_nonempty [OF assms] by blast
  then show ?thesis
    by (simp add: damagedStockRow_def Let_def reduce_sum_eq)
qed

lemma productMovementRow_ok:
  assumes "rs \<noteq> []"
  shows "\<exists>y. productMovementRow tm (k, rs) = Inr y
           \<and> pm_item_name y = k
           \<and> pm_activity y = activityTotal rs
           \<and> activity_level y =
               (if activityTotal rs > 100 then high else if activityTotal rs > 50 then medium else low)"
proof -
  let ?c = "\<lambda>a b. tm (date a) - tm (date b)"
  obtain r t where rt: "js_sort ?c rs = r # t"
    using sorted_nonempty [OF assms] by blast
  have sums: "reduce_sum f (r # t) = sum_list (map f rs)" for f
    using reduce_sum_js_sort [of f ?c rs] by (simp only: rt)
  show ?thesis
    unfolding productMovementRow_def
    by (simp only: rt prod.case list.case Let_def sums)
       (simp add: pm_activity_def activityTotal_def)
qed

section \<open>The weekly report returns\<close>

lemma productMovements_total: "\<exists>pms. productMovements tm records = Inr pms"
proof -
  have "\<And>k rs. rs \<noteq> [] \<Longrightarrow> \<exists>y. productMovementRow tm (k, rs) = Inr y"
    using productMovementRow_ok by blast
  from groupBy_rows [of "productMovementRow tm" item_name records, OF this]
  show ?thesis by (auto simp: productMovements_def)
qed

lemma generateWeeklyReport_ok:
  "\<exists>w. generateWeeklyReport tm dayName records = Inr w
     \<and> ws_total_stock_in (summary w) = sum_list (map new_stock records)
     \<and> ws_total_stock_out (summary w) = sum_list (map issued_production records)
     \<and> ws_total_returns (summary w) = sum_list (map returns records)
     \<and> ws_total_rebagging (summary w) = sum_list (map rebagging records)
     \<and> ws_total_damaged (summary w) = sum_list (map damaged records)
     \<and> ws_net_change (summary w) = sum_list (map (\<lambda>r. new_stock r - issued_production r) records)
     \<and> return_rate (efficiency_metrics w) =
         (if sum_list (map new_stock records) > 0
          then real_of_int (sum_list (map returns records)) / real_of_int (sum_list (map new_stock records)) * 100
          else 0)
     \<and> damage_rate (efficiency_metrics w) =
         (if sum_list (map new_stock records) > 0
          then real_of_int (sum_list (map damaged records)) / real_of_int (sum_list (map new_stock records)) * 100
          else 0)
     \<and> rebagging_rate (efficiency_metrics w) =
         (if sum_list (map new_stock records) > 0
          then real_of_int (sum_list (map rebagging records)) / real_of_int (sum_list (map new_stock records)) * 100
          else 0)
     \<and> productMovements tm (js_sort (\<lambda>a b. tm (date a) - tm (date b)) records)
         = Inr (product_movements w)"
proof (cases "records = []")
  case True
  then show ?thesis
    by (simp add: generateWeeklyReport_def emptyWeeklyReport_def productMovements_def
        js_sort_def groupBy_def)
next
  case False
  let ?c = "\<lambda>a b. tm (date a) - tm (date b)"
  obtain r t where rt: "js_sort ?c records = r # t"
    using sorted_nonempty [OF False] by blast
  obtain pms where pms: "productMovements tm (r # t) = Inr pms"
    using productMovements_total by blast
  have sums: "reduce_sum f (r # t) = sum_list (map f records)" for f
    using reduce_sum_js_sort [of f ?c records] by (simp only: rt)
  have len: "length records = 0 \<longleftrightarrow> False"
    using False by simp
  show ?thesis
    unfolding generateWeeklyReport_def
    by (simp only: len if_False rt list.case Let_def sums pms sum.case) simp
qed

section \<open>Rates\<close>

lemma guarded_rate:
  assumes "0 \<le> n"
  shows "percentage_of n d (if d > 0 then real_of_int n / real_of_int d * 100 else 0)"
proof (cases "0 < d")
  case True
  have "real_of_int n / real_of_int d * 100 \<le> 100 \<longleftrightarrow> n \<le> d"
  proof -
    have "real_of_int n / real_of_int d * 100 \<le> 100
            \<longleftrightarrow> real_of_int n * 100 \<le> 100 * real_of_int d"
      using True by (simp add: pos_divide_le_eq)
    also have "\<dots> \<longleftrightarrow> real_of_int n \<le> real_of_int d" by simp
    also have "\<dots> \<longleftrightarrow> n \<le> d" by simp
    finally show ?thesis .
  qed
  moreover have "0 \<le> real_of_int n / real_of_int d * 100"
    using assms True by simp
  ultimately show ?thesis using True by (simp add: percentage_of_def)
next
  case False
  then show ?thesis by (simp add: percentage_of_def)
qed

lemma productTotal_nonneg:
  assumes "\<forall>r \<in> set records. 0 \<le> f r"
  shows "0 \<le> productTotal f p records"
  unfolding productTotal_def productRecords_def
  using assms by (intro sum_list_nonneg) auto

lemma returns_view_rates:
  assumes "\<forall>r \<in> set records. 0 \<le> returns r"
  shows "\<exists>rows. generateReturnsRebaggingReport tm records = Inr rows
           \<and> (\<forall>row \<in> set rows.
                 percentage_of (productTotal returns (rr_item_name row) records)
                   (productTotal new_stock (rr_item_name row) records) (rr_return_rate row))"
proof -
  obtain rows0 where rows0: "mapE (returnsRebaggingRow tm) (groupBy item_name records) = Inr rows0"
    and r0: "\<forall>y \<in> set rows0. \<exists>k \<in> item_name ` set records.
               returnsRebaggingRow tm (k, productRecords k records) = Inr y"
    using per_product_rows [of "returnsRebaggingRow tm" records] returnsRebaggingRow_ok by blast
  let ?rows = "js_sort (\<lambda>a b. (rr_total_returns b + rr_total_rebagging b)
                               - (rr_total_returns a + rr_total_rebagging a))
                 (filter (\<lambda>item. rr_total_returns item > 0 \<or> rr_total_rebagging item > 0) rows0)"
  have res: "generateReturnsRebaggingReport tm records = Inr ?rows"
    by (simp add: generateReturnsRebaggingReport_def rows0)
  have rows: "\<forall>row \<in> set ?rows.
                 percentage_of (productTotal returns (rr_item_name row) records)
                   (productTotal new_stock (rr_item_name row) records) (rr_return_rate row)"
  proof
    fix row assume "row \<in> set ?rows"
    then have "row \<in> set rows0" by (simp add: set_js_sort)
    with r0 obtain k where k: "k \<in> item_name ` set records"
        "returnsRebaggingRow tm (k, productRecords k records) = Inr row" by blast
    from returnsRebaggingRow_ok [OF productRecords_nonempty [OF k(1)], of tm k] k(2)
    have row: "rr_item_name row = k"
      "rr_return_rate row =
         (if productTotal new_stock k records > 0
          then real_of_int (productTotal returns k records) / real_of_int (productTotal new_stock k records) * 100
          else 0)"
      by (auto simp: productTotal_def)
    show "percentage_of (productTotal returns (rr_item_name row) records)
            (productTotal new_stock (rr_item_name row) records) (rr_return_rate row)"
      unfolding row by (rule guarded_rate) (rule productTotal_nonneg [OF assms])
  qed
  from res rows show ?thesis by (intro exI [of _ ?rows] conjI) assumption+
qed

lemma damaged_view_rates:
  assumes "\<forall>r \<in> set records. 0 \<le> damaged r"
  shows "\<exists>rows. generateDamagedStockReport tm records = Inr rows
           \<and> (\<forall>row \<in> set rows.
                 percentage_of (productTotal damaged (ds_item_name row) records)
                   (productTotal new_stock (ds_item_name row) records) (damage_percentage row))"
proof -
  obtain rows0 where rows0: "mapE (damagedStockRow tm) (groupBy item_name records) = Inr rows0"
    and r0: "\<forall>y \<in> set rows0. \<exists>k \<in> item_name ` set records.
               damagedStockRow tm (k, productRecords k records) = Inr y"
    using per_product_rows [of "damagedStockRow tm" records] damagedStockRow_ok by blast
  let ?rows = "js_sort (\<lambda>a b. damage_percentage b - damage_percentage a)
                 (filter (\<lambda>item. ds_total_damaged item > 0) rows0)"
  have res: "generateDamagedStockReport tm records = Inr ?rows"
    by (simp add: generateDamagedStockReport_def rows0)
  have rows: "\<forall>row \<in> set ?rows.
                 percentage_of (productTotal damaged (ds_item_name row) records)
                   (productTotal new_stock (ds_item_name row) records) (damage_percentage row)"
  proof
    fix row assume "row \<in> set ?rows"
    then have "row \<in> set rows0" by (simp add: set_js_sort)
    with r0 obtain k where k: "k \<in> item_name ` set records"
        "damagedStockRow tm (k, productRecords k records) = Inr row" by blast
    from damagedStockRow_ok [OF productRecords_nonempty [OF k(1)], of tm k] k(2)
    have row: "ds_item_name row = k"
      "damage_percentage row =
         (if productTotal new_stock k records > 0
          then real_of_int (productTotal damaged k records) / real_of_int (productTotal new_stock k records) * 100
          else 0)"
      by (auto simp: productTotal_def)
    show "percentage_of (productTotal damaged (ds_item_name row) records)
            (productTotal new_stock (ds_item_name row) records) (damage_percentage row)"
      unfolding row by (rule guarded_rate) (rule productTotal_nonneg [OF assms])
  qed
  from res rows show ?thesis by (intro exI [of _ ?rows] conjI) assumption+
qed

lemma weekly_rates:
  assumes "\<forall>r \<in> set records. 0 \<le> returns r \<and> 0 \<le> rebagging r \<and> 0 \<le> damaged r"
  shows "\<exists>w. generateWeeklyReport tm dayName records = Inr w
           \<and> percentage_of (sum_list (map returns records)) (sum_list (map new_stock records))
                (return_rate (efficiency_metrics w))
           \<and> percentage_of (sum_list (map damaged records)) (sum_list (map new_stock records))
                (damage_rate (efficiency_metrics w))
           \<and> percentage_of (sum_list (map rebagging records)) (sum_list (map new_stock records))
                (rebagging_rate (efficiency_metrics w))"
proof -
  obtain w where w: "generateWeeklyReport tm dayName records = Inr w"
    and rates:
      "return_rate (efficiency_metrics w) =
         (if sum_list (map new_stock records) > 0
          then real_of_int (sum_list (map returns records)) / real_of_int (sum_list (map new_stock records)) * 100
          else 0)"
      "damage_rate (efficiency_metrics w) =
         (if sum_list (map new_stock records) > 0
          then real_of_int (sum_list (map damaged records)) / real_of_int (sum_list (map new_stock records)) * 100
          else 0)"
      "rebagging_rate (efficiency_metrics w) =
         (if sum_list (map new_stock records) > 0
          then real_of_int (sum_list (map rebagging records)) / real_of_int (sum_list (map new_stock records)) * 100
          else 0)"
    using generateWeeklyReport_ok [of tm dayName records] by blast
  have nn: "0 \<le> sum_list (map returns records)" "0 \<le> sum_list (map damaged records)"
      "0 \<le> sum_list (map rebagging records)"
    using assms by (auto intro!: sum_list_nonneg)
  show ?thesis
    unfolding rates using w guarded_rate [OF nn(1)] guarded_rate [OF nn(2)] guarded_rate [OF nn(3)]
    by (intro exI [of _ w] conjI) (assumption | simp only: rates)+
qed

text \<open>
  C1, as the code has it. For records whose returns, rebagging and damaged quantities are
  not negative, the three reports do not throw, and the per-product \<open>return_rate\<close> of
  the returns view, the per-product \<open>damage_percentage\<close> of the damaged-stock view and
  the weekly \<open>return_rate\<close>, \<open>damage_rate\<close> and \<open>rebagging_rate\<close> are percentages of
  their numerator in their denominator (the sum of \<open>new_stock\<close> for that product or
  period): the exact quotient times 100 and not negative when the denominator is
  positive, at most 100 exactly when the numerator does not exceed the denominator, and
  exactly 0 when the denominator is 0.
\<close>

theorem rates_bounds:
  assumes "\<forall>r \<in> set records. 0 \<le> returns r \<and> 0 \<le> rebagging r \<and> 0 \<le> damaged r"
  shows "(\<exists>rows. generateReturnsRebaggingReport tm records = Inr rows
           \<and> (\<forall>row \<in> set rows.
                 percentage_of (productTotal returns (rr_item_name row) records)
                   (productTotal new_stock (rr_item_name row) records) (rr_return_rate row)))
       \<and> (\<exists>rows. generateDamagedStockReport tm records = Inr rows
           \<and> (\<forall>row \<in> set rows.
                 percentage_of (productTotal damaged (ds_item_name row) records)
                   (productTotal new_stock (ds_item_name row) records) (damage_percentage row)))
       \<and> (\<exists>w. generateWeeklyReport tm dayName records = Inr w
           \<and> percentage_of (sum_list (map returns records)) (sum_list (map new_stock records))
                (return_rate (efficiency_metrics w))
           \<and> percentage_of (sum_list (map damaged records)) (sum_list (map new_stock records))
                (damage_rate (efficiency_metrics w))
           \<and> percentage_of (sum_list (map rebagging records)) (sum_list (map new_stock records))
                (rebagging_rate (efficiency_metrics w)))"
proof (intro conjI)
  show "\<exists>rows. generateReturnsRebaggingReport tm records = Inr rows
           \<and> (\<forall>row \<in> set rows.
                 percentage_of (productTotal returns (rr_item_name row) records)
                   (productTotal new_stock (rr_item_name row) records) (rr_return_rate row))"
    using assms by (intro returns_view_rates) simp
  show "\<exists>rows. generateDamagedStockReport tm records = Inr rows
           \<and> (\<forall>row \<in> set rows.
                 percentage_of (productTotal damaged (ds_item_name row) records)
                   (productTotal new_stock (ds_item_name row) records) (damage_percentage row))"
    using assms by (intro damaged_view_rates) simp
  show "\<exists>w. generateWeeklyReport tm dayName records = Inr w
           \<and> percentage_of (sum_list (map returns records)) (sum_list (map new_stock records))
                (return_rate (efficiency_metrics w))
           \<and> percentage_of (sum_list (map damaged records)) (sum_list (map new_stock records))
                (damage_rate (efficiency_metrics w))
           \<and> percentage_of (sum_list (map rebagging records)) (sum_list (map new_stock records))
                (rebagging_rate (efficiency_metrics w))"
    using assms by (rule weekly_rates)
qed

theorem rates_bounds_witness:
  "(0 \<le> returns (hd returnedRecords) \<and> 0 \<le> rebagging (hd returnedRecords)
      \<and> 0 \<le> damaged (hd returnedRecords))
   \<and> generateReturnsRebaggingReport isoTime returnedRecords =
       Inr [\<lparr> rr_item_name = ''B'', rr_total_returns = 2, rr_total_rebagging = 1,
              rr_return_rate = 20, last_activity = ''2024-01-03'' \<rparr>]
   \<and> generateDamagedStockReport isoTime returnedRecords =
       Inr [\<lparr> ds_item_name = ''B'', ds_total_damaged = 1, damage_percentage = 10,
              last_damage_date = ''2024-01-03'', ds_total_stock_in = 10 \<rparr>]
   \<and> percentage_of (productTotal returns ''B'' returnedRecords)
         (productTotal new_stock ''B'' returnedRecords) 20
   \<and> percentage_of (productTotal damaged ''B'' returnedRecords)
         (productTotal new_stock ''B'' returnedRecords) 10"
proof -
  have h: "\<forall>r \<in> set returnedRecords. 0 \<le> returns r \<and> 0 \<le> rebagging r \<and> 0 \<le> damaged r"
    by (simp add: returnedRecords_def)
  have e: "generateReturnsRebaggingReport isoTime returnedRecords =
       Inr [\<lparr> rr_item_name = ''B'', rr_total_returns = 2, rr_total_rebagging = 1,
              rr_return_rate = 20, last_activity = ''2024-01-03'' \<rparr>]"
      "generateDamagedStockReport isoTime returnedRecords =
       Inr [\<lparr> ds_item_name = ''B'', ds_total_damaged = 1, damage_percentage = 10,
              last_damage_date = ''2024-01-03'', ds_total_stock_in = 10 \<rparr>]"
    by code_simp+
  from rates_bounds [OF h, of isoTime isoWeekday] h e show ?thesis
    by (auto simp: returnedRecords_def)
qed

text \<open>
  The bound 100 fails where the numerator exceeds the stock received: on
  \<open>overReturned\<close> the denominators are 1 and the rates are 500, 300 and 200.
\<close>

theorem rates_bounds_counterexample:
  "generateReturnsRebaggingReport isoTime overReturned =
     Inr [\<lparr> rr_item_name = ''A'', rr_total_returns = 5, rr_total_rebagging = 2,
            rr_return_rate = 500, last_activity = ''2024-01-01'' \<rparr>]
   \<and> generateDamagedStockReport isoTime overReturned =
     Inr [\<lparr> ds_item_name = ''A'', ds_total_damaged = 3, damage_percentage = 300,
            last_damage_date = ''2024-01-01'', ds_total_stock_in = 1 \<rparr>]
   \<and> map_sum id efficiency_metrics (generateWeeklyReport isoTime isoWeekday overReturned) =
     Inr \<lparr> return_rate = 500, damage_rate = 300, rebagging_rate = 200, stock_turnover = 0 \<rparr>
   \<and> productTotal new_stock ''A'' overReturned = 1
   \<and> sum_list (map new_stock overReturned) = 1
   \<and> \<not> (500 :: real) \<le> 100"
proof (intro conjI)
  show "generateReturnsRebaggingReport isoTime overReturned =
     Inr [\<lparr> rr_item_name = ''A'', rr_total_returns = 5, rr_total_rebagging = 2,
            rr_return_rate = 500, last_activity = ''2024-01-01'' \<rparr>]"
    by code_simp
  show "generateDamagedStockReport isoTime overReturned =
     Inr [\<lparr> ds_item_name = ''A'', ds_total_damaged = 3, damage_percentage = 300,
            last_damage_date = ''2024-01-01'', ds_total_stock_in = 1 \<rparr>]"
    by code_simp
  show "map_sum id efficiency_metrics (generateWeeklyReport isoTime isoWeekday overReturned) =
     Inr \<lparr> return_rate = 500, damage_rate = 300, rebagging_rate = 200, stock_turnover = 0 \<rparr>"
    by code_simp
  show "productTotal new_stock ''A'' overReturned = 1" by code_simp
  show "sum_list (map new_stock overReturned) = 1" by code_simp
  show "\<not> (500 :: real) \<le> 100" by simp
qed

section \<open>Weekly report: activity levels\<close>

lemma productRecords_js_sort_mset:
  "mset (productRecords k (js_sort c records)) = mset (productRecords k records)"
  by (simp add: productRecords_def mset_js_sort)

lemma activityTotal_cong:
  assumes "mset xs = mset ys"
  shows "activityTotal xs = activityTotal ys"
  unfolding activityTotal_def
  by (simp only: sum_list_mset_cong [OF assms])

lemma productMovements_rows:
  "\<exists>pms. productMovements tm records = Inr pms
     \<and> (\<forall>row \<in> set pms.
           activity_level row = activityLevel (activityTotal (productRecords (pm_item_name row) records))
         \<and> 0 < activityTotal (productRecords (pm_item_name row) records))
     \<and> (\<forall>p. (\<exists>row \<in> set pms. pm_item_name row = p)
              \<longleftrightarrow> 0 < activityTotal (productRecords p records))"
proof -
  obtain rows0 where rows0: "mapE (productMovementRow tm) (groupBy item_name records) = Inr rows0"
    and r0: "\<forall>y \<in> set rows0. \<exists>k \<in> item_name ` set records.
               productMovementRow tm (k, productRecords k records) = Inr y"
    and r1: "\<forall>k \<in> item_name ` set records. \<exists>y \<in> set rows0.
               productMovementRow tm (k, productRecords k records) = Inr y"
    using per_product_rows [of "productMovementRow tm" records] productMovementRow_ok by blast
  let ?pms = "js_sort (\<lambda>a b. pm_activity b - pm_activity a)
                 (filter (\<lambda>product. pm_activity product > 0) rows0)"
  have res: "productMovements tm records = Inr ?pms"
    by (simp add: productMovements_def rows0)
  have mem: "y \<in> set ?pms \<longleftrightarrow> y \<in> set rows0 \<and> 0 < pm_activity y" for y
    by (simp add: set_js_sort)
  have row: "pm_item_name y = k \<and> pm_activity y = activityTotal (productRecords k records)
           \<and> activity_level y = activityLevel (activityTotal (productRecords k records))"
    if "k \<in> item_name ` set records" "productMovementRow tm (k, productRecords k records) = Inr y"
    for k y
    using productMovementRow_ok [OF productRecords_nonempty [OF that(1)], of tm k] that(2)
    by (auto simp: activityLevel_def)
  have c1: "\<forall>y \<in> set ?pms.
           activity_level y = activityLevel (activityTotal (productRecords (pm_item_name y) records))
         \<and> 0 < activityTotal (productRecords (pm_item_name y) records)"
  proof
    fix y assume y: "y \<in> set ?pms"
    with mem r0 obtain k where k: "k \<in> item_name ` set records"
        "productMovementRow tm (k, productRecords k records) = Inr y" by blast
    from row [OF k] y mem
    show "activity_level y = activityLevel (activityTotal (productRecords (pm_item_name y) records))
         \<and> 0 < activityTotal (productRecords (pm_item_name y) records)"
      by auto
  qed
  have c2: "\<forall>p. (\<exists>y \<in> set ?pms. pm_item_name y = p)
              \<longleftrightarrow> 0 < activityTotal (productRecords p records)"
  proof (intro allI iffI)
    fix p assume "\<exists>y \<in> set ?pms. pm_item_name y = p"
    with c1 show "0 < activityTotal (productRecords p records)" by blast
  next
    fix p assume pos: "0 < activityTotal (productRecords p records)"
    have "productRecords p records \<noteq> []"
    proof
      assume "productRecords p records = []"
      with pos show False by (simp add: activityTotal_def)
    qed
    then have "p \<in> item_name ` set records"
      by (auto simp: productRecords_def filter_empty_conv)
    with r1 obtain y where y: "y \<in> set rows0"
        "productMovementRow tm (p, productRecords p records) = Inr y" by blast
    from row [OF \<open>p \<in> item_name ` set records\<close> y(2)] pos y(1) mem
    show "\<exists>y \<in> set ?pms. pm_item_name y = p" by auto
  qed
  from res c1 c2 show ?thesis by (intro exI [of _ ?pms] conjI) assumption+
qed

text \<open>
  C4, as the code has it. The weekly report does not throw. The \<open>activity_level\<close> of
  each per-product row is \<open>high\<close> if the total activity of the product exceeds 100,
  \<open>medium\<close> if it exceeds 50 and \<open>low\<close> otherwise, where the total activity is the
  sum of the five movement fields \<open>new_stock\<close>, \<open>issued_production\<close>, \<open>returns\<close>,
  \<open>rebagging\<close> and \<open>damaged\<close> over the product's records in range; and a product has
  a row in \<open>product_movements\<close> if and only if that total is positive, so every product
  whose total activity is zero is excluded.
\<close>

theorem activity_level_five_fields:
  "\<exists>w. generateWeeklyReport tm dayName records = Inr w
     \<and> (\<forall>row \<in> set (product_movements w).
           activity_level row = activityLevel (activityTotal (productRecords (pm_item_name row) records))
         \<and> 0 < activityTotal (productRecords (pm_item_name row) records))
     \<and> (\<forall>p. (\<exists>row \<in> set (product_movements w). pm_item_name row = p)
              \<longleftrightarrow> 0 < activityTotal (productRecords p records))"
proof -
  let ?srt = "js_sort (\<lambda>a b. tm (date a) - tm (date b)) records"
  obtain w where w: "generateWeeklyReport tm dayName records = Inr w"
    and pm: "productMovements tm ?srt = Inr (product_movements w)"
    using generateWeeklyReport_ok [of tm dayName records] by blast
  have eq: "activityTotal (productRecords p ?srt) = activityTotal (productRecords p records)" for p
    by (rule activityTotal_cong) (rule productRecords_js_sort_mset)
  from productMovements_rows [of tm ?srt, unfolded eq] obtain pms where
    pms: "productMovements tm ?srt = Inr pms"
    and c1: "\<forall>row \<in> set pms.
           activity_level row = activityLevel (activityTotal (productRecords (pm_item_name row) records))
         \<and> 0 < activityTotal (productRecords (pm_item_name row) records)"
    and c2: "\<forall>p. (\<exists>row \<in> set pms. pm_item_name row = p)
              \<longleftrightarrow> 0 < activityTotal (productRecords p records)"
    by blast
  from pms pm have "pms = product_movements w" by simp
  with w c1 c2 show ?thesis
    by (intro exI [of _ w] conjI) (assumption | simp)+
qed

theorem activity_level_five_fields_witness:
  "map_sum id (\<lambda>w. map (\<lambda>row. (pm_item_name row, activity_level row)) (product_movements w))
     (generateWeeklyReport isoTime isoWeekday (exampleRecords @ returnedRecords @ stockedRecords))
     = Inr [(''A'', low), (''B'', low)]
   \<and> activityTotal (productRecords ''A'' (exampleRecords @ returnedRecords @ stockedRecords)) = 21
   \<and> activityTotal (productRecords ''B'' (exampleRecords @ returnedRecords @ stockedRecords)) = 18
   \<and> activityLevel 21 = low"
proof -
  have e: "map_sum id (\<lambda>w. map (\<lambda>row. (pm_item_name row, activity_level row)) (product_movements w))
     (generateWeeklyReport isoTime isoWeekday (exampleRecords @ returnedRecords @ stockedRecords))
     = Inr [(''A'', low), (''B'', low)]"
    by code_simp
  have a: "activityTotal (productRecords ''A'' (exampleRecords @ returnedRecords @ stockedRecords)) = 21"
    "activityTotal (productRecords ''B'' (exampleRecords @ returnedRecords @ stockedRecords)) = 18"
    by code_simp+
  from activity_level_five_fields [of isoTime isoWeekday "exampleRecords @ returnedRecords @ stockedRecords"]
    e a show ?thesis
    by (auto simp: activityLevel_def)
qed

text \<open>
  With a sixth field in the total the levels differ: the product of \<open>stockedRecords\<close>
  has the six-field total 201, for which the claim says \<open>high\<close>, and its row says
  \<open>low\<close>.
\<close>

theorem activity_level_six_fields_counterexample:
  "map_sum id (\<lambda>w. map (\<lambda>row. (pm_item_name row, activity_level row)) (product_movements w))
     (generateWeeklyReport isoTime isoWeekday stockedRecords) = Inr [(''A'', low)]
   \<and> sixFieldActivity (productRecords ''A'' stockedRecords) = 201
   \<and> activityLevel (sixFieldActivity (productRecords ''A'' stockedRecords)) = high"
proof (intro conjI)
  show "map_sum id (\<lambda>w. map (\<lambda>row. (pm_item_name row, activity_level row)) (product_movements w))
     (generateWeeklyReport isoTime isoWeekday stockedRecords) = Inr [(''A'', low)]"
    by code_simp
  show "sixFieldActivity (productRecords ''A'' stockedRecords) = 201" by code_simp
  show "activityLevel (sixFieldActivity (productRecords ''A'' stockedRecords)) = high" by code_simp
qed

section \<open>The two net-change figures\<close>

lemma total_out_row:
  "total_out (stockMovementRow g) = sum_list (map (\<lambda>r. issued_production r + damaged r) (snd g))"
proof -
  have acc: "foldl (\<lambda>sum r. sum + issued_production r + damaged r) a rs
          = a + sum_list (map (\<lambda>r. issued_production r + damaged r) rs)" for a :: int and rs
    by (induction rs arbitrary: a) simp_all
  show ?thesis by (cases g) (simp add: stockMovementRow_def Let_def acc)
qed

lemma net_change_row:
  "sm_net_change (stockMovementRow g) =
     sum_list (map (\<lambda>r. (new_stock r + returns r + rebagging r) - (issued_production r + damaged r)) (snd g))"
proof -
  have "sm_net_change (stockMovementRow g) = total_in (stockMovementRow g) - total_out (stockMovementRow g)"
    by (cases g) (simp add: stockMovementRow_def Let_def)
  then show ?thesis
    by (simp only: total_in_row total_out_row sum_list_subtractf)
qed

lemma date_row: "sm_date (stockMovementRow g) = fst g"
  by (cases g) (simp add: stockMovementRow_def Let_def)

lemma movement_rows_net_change:
  "\<forall>row \<in> set (generateStockMovementReport tm records).
      sm_net_change row =
        sum_list (map (\<lambda>r. (new_stock r + returns r + rebagging r) - (issued_production r + damaged r))
                   (dateRecords (sm_date row) records))"
proof
  fix row assume "row \<in> set (generateStockMovementReport tm records)"
  then obtain g where g: "g \<in> set (groupBy date records)" "row = stockMovementRow g"
    by (auto simp: generateStockMovementReport_def set_js_sort)
  obtain d rs where drs: "g = (d, rs)" by (cases g)
  with g(1) have rs: "rs = dateRecords d records"
    by (simp add: groupBy_mem_iff dateRecords_def)
  show "sm_net_change row =
        sum_list (map (\<lambda>r. (new_stock r + returns r + rebagging r) - (issued_production r + damaged r))
                   (dateRecords (sm_date row) records))"
    unfolding g(2) net_change_row date_row by (simp add: drs rs)
qed

lemma movement_net_change_total:
  "sum_list (map sm_net_change (generateStockMovementReport tm records))
     = sum_list (map (\<lambda>r. (new_stock r + returns r + rebagging r) - (issued_production r + damaged r)) records)"
proof -
  let ?f = "\<lambda>r. (new_stock r + returns r + rebagging r) - (issued_production r + damaged r)"
  have "sum_list (map sm_net_change (generateStockMovementReport tm records))
          = sum_list (map sm_net_change (map stockMovementRow (groupBy date records)))"
    unfolding generateStockMovementReport_def
    by (rule sum_list_mset_cong) (rule mset_js_sort)
  also have "\<dots> = sum_list (map (\<lambda>g. sum_list (map ?f (snd g))) (groupBy date records))"
    by (simp add: comp_def net_change_row)
  also have "\<dots> = sum_list (map ?f records)"
    by (rule groupBy_sum)
  finally show ?thesis .
qed

text \<open>
  C8. The weekly report does not throw, and its summary \<open>net_change\<close> is the sum of
  \<open>new_stock - issued_production\<close> over all filtered records; returns, rebagging and
  damaged stock do not enter. Each row of the per-date movements view has as
  \<open>net_change\<close> the sum of
  \<open>(new_stock + returns + rebagging) - (issued_production + damaged)\<close> over the records
  of its date, so the rows of a period add up to that sum over all records. For some
  input with a non-zero return, rebagging or damage the two figures of the same period
  differ.
\<close>

theorem net_change_asymmetry:
  "(\<exists>w. generateWeeklyReport tm dayName records = Inr w
        \<and> ws_net_change (summary w) = sum_list (map (\<lambda>r. new_stock r - issued_production r) records))
   \<and> (\<forall>row \<in> set (generateStockMovementReport tm records).
         sm_net_change row =
           sum_list (map (\<lambda>r. (new_stock r + returns r + rebagging r) - (issued_production r + damaged r))
                      (dateRecords (sm_date row) records)))
   \<and> sum_list (map sm_net_change (generateStockMovementReport tm records))
        = sum_list (map (\<lambda>r. (new_stock r + returns r + rebagging r) - (issued_production r + damaged r)) records)
   \<and> (\<exists>recs w. (\<exists>r \<in> set recs. returns r \<noteq> 0 \<or> rebagging r \<noteq> 0 \<or> damaged r \<noteq> 0)
        \<and> generateWeeklyReport isoTime isoWeekday recs = Inr w
        \<and> sum_list (map sm_net_change (generateStockMovementReport isoTime recs))
             \<noteq> ws_net_change (summary w))"
proof (intro conjI)
  show "\<exists>w. generateWeeklyReport tm dayName records = Inr w
        \<and> ws_net_change (summary w) = sum_list (map (\<lambda>r. new_stock r - issued_production r) records)"
    using generateWeeklyReport_ok [of tm dayName records] by blast
  show "\<forall>row \<in> set (generateStockMovementReport tm records).
         sm_net_change row =
           sum_list (map (\<lambda>r. (new_stock r + returns r + rebagging r) - (issued_production r + damaged r))
                      (dateRecords (sm_date row) records))"
    by (rule movement_rows_net_change)
  show "sum_list (map sm_net_change (generateStockMovementReport tm records))
        = sum_list (map (\<lambda>r. (new_stock r + returns r + rebagging r) - (issued_production r + damaged r)) records)"
    by (rule movement_net_change_total)
  obtain w where w: "generateWeeklyReport isoTime isoWeekday returnedRecords = Inr w"
    and n: "ws_net_change (summary w)
              = sum_list (map (\<lambda>r. new_stock r - issued_production r) returnedRecords)"
    using generateWeeklyReport_ok [of isoTime isoWeekday returnedRecords] by blast
  have n6: "ws_net_change (summary w) = 6"
    unfolding n by (simp add: returnedRecords_def)
  have m8: "sum_list (map sm_net_change (generateStockMovementReport isoTime returnedRecords)) = 8"
    unfolding movement_net_change_total by (simp add: returnedRecords_def)
  have nz: "\<exists>r \<in> set returnedRecords. returns r \<noteq> 0 \<or> rebagging r \<noteq> 0 \<or> damaged r \<noteq> 0"
    by (simp add: returnedRecords_def)
  from w n6 m8 nz
  show "\<exists>recs w. (\<exists>r \<in> set recs. returns r \<noteq> 0 \<or> rebagging r \<noteq> 0 \<or> damaged r \<noteq> 0)
        \<and> generateWeeklyReport isoTime isoWeekday recs = Inr w
        \<and> sum_list (map sm_net_change (generateStockMovementReport isoTime recs))
             \<noteq> ws_net_change (summary w)"
    by (intro exI [of _ returnedRecords] exI [of _ w] conjI) simp_all
qed

theorem net_change_asymmetry_witness:
  "map_sum id (\<lambda>w. ws_net_change (summary w))
       (generateWeeklyReport isoTime isoWeekday returnedRecords) = Inr 6
   \<and> map (\<lambda>row. (sm_date row, total_in row, total_out row, sm_net_change row))
       (generateStockMovementReport isoTime returnedRecords) = [(''2024-01-03'', 13, 5, 8)]
   \<and> sum_list (map (\<lambda>r. (new_stock r + returns r + rebagging r) - (issued_production r + damaged r))
                 (dateRecords ''2024-01-03'' returnedRecords)) = 8"
proof -
  have e: "map_sum id (\<lambda>w. ws_net_change (summary w))
       (generateWeeklyReport isoTime isoWeekday returnedRecords) = Inr 6"
    by code_simp
  have m: "map (\<lambda>row. (sm_date row, total_in row, total_out row, sm_net_change row))
       (generateStockMovementReport isoTime returnedRecords) = [(''2024-01-03'', 13, 5, 8)]"
    by code_simp
  then obtain row where row: "generateStockMovementReport isoTime returnedRecords = [row]"
      "sm_date row = ''2024-01-03''" "sm_net_change row = 8"
    by auto
  from net_change_asymmetry [of isoTime isoWeekday returnedRecords] row e m
  show ?thesis by auto
qed

section \<open>The bundle and the clock\<close>

lemma stockBalanceRow_ok:
  assumes "rs \<noteq> []"
  shows "\<exists>y. stockBalanceRow tm (k, rs) = Inr y"
proof -
  obtain r t where "js_sort (\<lambda>a b. tm (date a) - tm (date b)) rs = r # t"
    using sorted_nonempty [OF assms] by blast
  then show ?thesis
    by (simp add: stockBalanceRow_def Let_def)
qed

lemma stockHistoryRow_ok:
  assumes "rs \<noteq> []"
  shows "\<exists>y. stockHistoryRow tm (k, rs) = Inr y"
proof -
  obtain r t where "js_sort (\<lambda>a b. tm (date a) - tm (date b)) rs = r # t"
    using sorted_nonempty [OF assms] by blast
  then show ?thesis
    by (simp add: stockHistoryRow_def Let_def)
qed

lemma view_total:
  assumes "\<And>k rs. rs \<noteq> [] \<Longrightarrow> \<exists>y. row (k, rs) = Inr y"
  shows "\<exists>v. map_sum id post (mapE row (groupBy key records)) = Inr v"
proof -
  obtain rows where "mapE row (groupBy key records) = Inr rows"
    using groupBy_rows [of row key records, OF assms] by blast
  then show ?thesis by simp
qed

lemma generateStockBalanceReport_total: "\<exists>v. generateStockBalanceReport tm records = Inr v"
  unfolding generateStockBalanceReport_def by (rule view_total) (rule stockBalanceRow_ok)

lemma generateProductionReport_total: "\<exists>v. generateProductionReport tm records = Inr v"
  unfolding generateProductionReport_def
  by (rule view_total) (use productionRow_ok in blast)

lemma generateReturnsRebaggingReport_total: "\<exists>v. generateReturnsRebaggingReport tm records = Inr v"
  unfolding generateReturnsRebaggingReport_def
  by (rule view_total) (use returnsRebaggingRow_ok in blast)

lemma generateDamagedStockReport_total: "\<exists>v. generateDamagedStockReport tm records = Inr v"
  unfolding generateDamagedStockReport_def
  by (rule view_total) (use damagedStockRow_ok in blast)

lemma generateStockHistoryReport_total: "\<exists>v. generateStockHistoryReport tm records = Inr v"
  unfolding generateStockHistoryReport_def by (rule view_total) (rule stockHistoryRow_ok)

lemma generateWeeklyReport_total: "\<exists>v. generateWeeklyReport tm dayName records = Inr v"
  using generateWeeklyReport_ok [of tm dayName records] by blast

lemma out_of_stock_clock:
  "\<exists>rows1 rows2.
      generateOutOfStockReport tm now1 records = Inr rows1
    \<and> generateOutOfStockReport tm now2 records = Inr rows2
    \<and> mset (map oosEntry rows1) = mset (map oosEntry rows2)"
proof -
  let ?gs = "groupBy item_name records"
  let ?c = "\<lambda>a b. days_since_stock b - days_since_stock a"
  let ?P = "\<lambda>item. last_stock item = 0"
  obtain rows1 where
    res1: "generateOutOfStockReport tm now1 records = Inr (js_sort ?c (filter ?P rows1))"
    and names1: "map oos_item_name rows1 = map fst ?gs"
    and row1: "\<And>row. row \<in> set rows1 \<Longrightarrow>
                \<exists>r. latestRecord tm (oos_item_name row) records = Some r
                  \<and> row = \<lparr> oos_item_name = item_name r, last_stock = closing_stock r, last_date = date r,
                           days_since_stock = (now1 - tm (date r)) div 86400000 \<rparr>"
    using out_of_stock_rows [of tm now1 records] by blast
  obtain rows2 where
    res2: "generateOutOfStockReport tm now2 records = Inr (js_sort ?c (filter ?P rows2))"
    and names2: "map oos_item_name rows2 = map fst ?gs"
    and row2: "\<And>row. row \<in> set rows2 \<Longrightarrow>
                \<exists>r. latestRecord tm (oos_item_name row) records = Some r
                  \<and> row = \<lparr> oos_item_name = item_name r, last_stock = closing_stock r, last_date = date r,
                           days_since_stock = (now2 - tm (date r)) div 86400000 \<rparr>"
    using out_of_stock_rows [of tm now2 records] by blast
  have len: "length rows1 = length rows2"
    using names1 names2 by (metis length_map)
  have entry: "oosEntry (rows1 ! i) = oosEntry (rows2 ! i)" if i: "i < length rows1" for i
  proof -
    from i len have n: "oos_item_name (rows1 ! i) = oos_item_name (rows2 ! i)"
      using names1 names2 by (metis nth_map)
    from i obtain r1 where r1: "latestRecord tm (oos_item_name (rows1 ! i)) records = Some r1"
      "rows1 ! i = \<lparr> oos_item_name = item_name r1, last_stock = closing_stock r1, last_date = date r1,
                           days_since_stock = (now1 - tm (date r1)) div 86400000 \<rparr>"
      using row1 [of "rows1 ! i"] by auto
    from i len obtain r2 where r2: "latestRecord tm (oos_item_name (rows2 ! i)) records = Some r2"
      "rows2 ! i = \<lparr> oos_item_name = item_name r2, last_stock = closing_stock r2, last_date = date r2,
                           days_since_stock = (now2 - tm (date r2)) div 86400000 \<rparr>"
      using row2 [of "rows2 ! i"] by auto
    from r1(1) r2(1) n have "r1 = r2" by simp
    then show ?thesis
      by (subst r1(2), subst r2(2)) (simp add: oosEntry_def)
  qed
  have all: "map oosEntry rows1 = map oosEntry rows2"
    using len entry by (simp add: list_eq_iff_nth_eq)
  have flt: "map oosEntry (filter ?P rows) = filter (\<lambda>e. fst (snd e) = 0) (map oosEntry rows)" for rows
    by (simp add: filter_map comp_def oosEntry_def)
  have srt: "mset (map oosEntry (js_sort ?c xs)) = mset (map oosEntry xs)" for xs
    by (simp add: mset_js_sort)
  have "mset (map oosEntry (js_sort ?c (filter ?P rows1)))
          = mset (map oosEntry (js_sort ?c (filter ?P rows2)))"
    by (simp only: srt flt all)
  with res1 res2 show ?thesis by blast
qed

text \<open>
  C3, as the code has it. The report bundle is a function of the record list, the date
  range and the clock reading (and of the runtime's date functions): \<open>generateReports\<close>
  does not throw, and for two clock readings on the same records and range the
  movements, balances, production, returns, damaged-stock and history views and the
  weekly report are identical, and the out-of-stock views hold the same entries
  \<open>(item_name, last_stock, last_date)\<close>. The clock decides only \<open>days_since_stock\<close>
  and, through it, the order of the out-of-stock view.
\<close>

theorem clock_affects_only_days_since_stock:
  "\<exists>b1 b2. generateReports tm dayName now1 records dateRange = Inr b1
      \<and> generateReports tm dayName now2 records dateRange = Inr b2
      \<and> stockMovements b1 = stockMovements b2
      \<and> stockBalances b1 = stockBalances b2
      \<and> productionIssues b1 = productionIssues b2
      \<and> returnsRebagging b1 = returnsRebagging b2
      \<and> damagedStock b1 = damagedStock b2
      \<and> stockHistory b1 = stockHistory b2
      \<and> weeklyReport b1 = weeklyReport b2
      \<and> mset (map oosEntry (outOfStockProducts b1)) = mset (map oosEntry (outOfStockProducts b2))"
proof -
  let ?fr = "filterRecords tm dateRange records"
  obtain rows1 rows2 where
    v1: "generateOutOfStockReport tm now1 ?fr = Inr rows1"
        "generateOutOfStockReport tm now2 ?fr = Inr rows2"
    and entries: "mset (map oosEntry rows1) = mset (map oosEntry rows2)"
    using out_of_stock_clock [of tm now1 ?fr now2] by blast
  obtain v3 where v3: "generateStockBalanceReport tm ?fr = Inr v3"
    using generateStockBalanceReport_total by blast
  obtain v4 where v4: "generateProductionReport tm ?fr = Inr v4"
    using generateProductionReport_total by blast
  obtain v5 where v5: "generateReturnsRebaggingReport tm ?fr = Inr v5"
    using generateReturnsRebaggingReport_total by blast
  obtain v6 where v6: "generateDamagedStockReport tm ?fr = Inr v6"
    using generateDamagedStockReport_total by blast
  obtain v7 where v7: "generateStockHistoryReport tm ?fr = Inr v7"
    using generateStockHistoryReport_total by blast
  obtain v8 where v8: "generateWeeklyReport tm dayName ?fr = Inr v8"
    using generateWeeklyReport_total by blast
  let ?b = "\<lambda>rows. \<lparr> outOfStockProducts = rows,
                     stockMovements = generateStockMovementReport tm ?fr,
                     stockBalances = v3, productionIssues = v4, returnsRebagging = v5,
                     damagedStock = v6, stockHistory = v7, weeklyReport = v8 \<rparr>"
  have b1: "generateReports tm dayName now1 records dateRange = Inr (?b rows1)"
    by (simp add: generateReports_def bindE_def Let_def v1 v3 v4 v5 v6 v7 v8)
  have b2: "generateReports tm dayName now2 records dateRange = Inr (?b rows2)"
    by (simp add: generateReports_def bindE_def Let_def v1 v3 v4 v5 v6 v7 v8)
  from b1 b2 entries show ?thesis
    by (intro exI [of _ "?b rows1"] exI [of _ "?b rows2"] conjI) simp_all
qed

text \<open>
  The same records and range one day apart (UTC midnight of 2024-01-02 and of
  2024-01-03): \<open>days_since_stock\<close> of product \<open>A\<close> is 0 and then 1, so the bundles
  differ.
\<close>

theorem clock_counterexample:
  "map_sum id (\<lambda>b. map days_since_stock (outOfStockProducts b))
       (generateReports isoTime isoWeekday 1704153600000 exampleRecords exampleRange) = Inr [0]
   \<and> map_sum id (\<lambda>b. map days_since_stock (outOfStockProducts b))
       (generateReports isoTime isoWeekday 1704240000000 exampleRecords exampleRange) = Inr [1]
   \<and> generateReports isoTime isoWeekday 1704153600000 exampleRecords exampleRange
       \<noteq> generateReports isoTime isoWeekday 1704240000000 exampleRecords exampleRange"
proof -
  have a: "map_sum id (\<lambda>b. map days_since_stock (outOfStockProducts b))
       (generateReports isoTime isoWeekday 1704153600000 exampleRecords exampleRange) = Inr [0]"
    by code_simp
  have b: "map_sum id (\<lambda>b. map days_since_stock (outOfStockProducts b))
       (generateReports isoTime isoWeekday 1704240000000 exampleRecords exampleRange) = Inr [1]"
    by code_simp
  have "generateReports isoTime isoWeekday 1704153600000 exampleRecords exampleRange
       \<noteq> generateReports isoTime isoWeekday 1704240000000 exampleRecords exampleRange"
  proof
    assume "generateReports isoTime isoWeekday 1704153600000 exampleRecords exampleRange
       = generateReports isoTime isoWeekday 1704240000000 exampleRecords exampleRange"
    with a b have "(Inr [0::int] :: error + int list) = Inr [1]" by simp
    then show False by simp
  qed
  with a b show ?thesis by simp
qed

end
